theory Spec2Isabelle
  imports Main "HOL-Library.Word"
begin

unbundle bit_operations_syntax

section \<open>JavaScript numbers, operators and strings\<close>

text \<open>
  The door-access code is TypeScript running on Node. Its numbers are modelled as
  \<open>int\<close> (every counter and code the services handle is an integer), a Buffer as a list
  of bytes, and a string as a \<open>char list\<close>. The bitwise operators of JavaScript first
  convert their operands to signed 32-bit integers (\<open>ToInt32\<close>); that conversion is
  written out, since the counter loop of \<open>generateHOTP\<close> depends on it.
\<close>

type_synonym byte = "8 word"

definition ToInt32 :: "int \<Rightarrow> int" where
  "ToInt32 x = signed_take_bit 31 x"

definition js_and :: "int \<Rightarrow> int \<Rightarrow> int" where
  "js_and x y = ToInt32 x AND ToInt32 y"

definition js_or :: "int \<Rightarrow> int \<Rightarrow> int" where
  "js_or x y = ToInt32 x OR ToInt32 y"

definition js_shl :: "int \<Rightarrow> nat \<Rightarrow> int" where
  "js_shl x n = ToInt32 (push_bit (n mod 32) (ToInt32 x))"

definition js_sar :: "int \<Rightarrow> nat \<Rightarrow> int" where
  "js_sar x n = drop_bit (n mod 32) (ToInt32 x)"

text \<open>The remainder operator \<open>%\<close> takes the sign of the dividend.\<close>

definition js_rem :: "int \<Rightarrow> int \<Rightarrow> int" where
  "js_rem a b = sgn a * (\<bar>a\<bar> mod \<bar>b\<bar>)"

text \<open>
  Reading a Buffer outside its bounds gives \<open>undefined\<close> (here \<open>None\<close>); a bitwise
  operator converts \<open>undefined\<close> to \<open>NaN\<close> and then to 0.
\<close>

definition buffer_at :: "byte list \<Rightarrow> int \<Rightarrow> int option" where
  "buffer_at b i = (if 0 \<le> i \<and> i < int (length b) then Some (uint (b ! nat i)) else None)"

definition js_num :: "int option \<Rightarrow> int" where
  "js_num v = (case v of None \<Rightarrow> 0 | Some x \<Rightarrow> x)"

text \<open>\<open>Number.prototype.toString\<close> on an integer, and \<open>String.prototype.padStart\<close>.\<close>

definition digit_char :: "nat \<Rightarrow> char" where
  "digit_char d = ''0123456789'' ! d"

function digits :: "nat \<Rightarrow> string" where
  "digits n = (if n < 10 then [digit_char n] else digits (n div 10) @ [digit_char (n mod 10)])"
  by pat_completeness auto
termination
  by (relation "measure (\<lambda>n. n)") auto

declare digits.simps [simp del]

definition toString :: "int \<Rightarrow> string" where
  "toString n = (if n < 0 then CHR ''-'' # digits (nat (- n)) else digits (nat n))"

definition padStart :: "nat \<Rightarrow> char \<Rightarrow> string \<Rightarrow> string" where
  "padStart n c s = replicate (n - length s) c @ s"

text \<open>\<open>String.prototype.split\<close> with a one-character separator.\<close>

fun split_on :: "char \<Rightarrow> string \<Rightarrow> string list" where
  "split_on c [] = [[]]"
| "split_on c (x # xs) =
     (if x = c then [] # split_on c xs
      else (case split_on c xs of [] \<Rightarrow> [[x]] | p # ps \<Rightarrow> (x # p) # ps))"

section \<open>Node library: base64 decoding, SHA-1 and HMAC\<close>

text \<open>
  \<open>Buffer.from(s, 'base64')\<close> is lenient: it accepts the standard and the URL-safe
  alphabet, skips every character outside them, stops at the first padding character,
  and drops an incomplete trailing group of fewer than two characters.
\<close>

definition b64_value :: "char \<Rightarrow> int option" where
  "b64_value c =
     (let n = (of_char c :: nat) in
      if 65 \<le> n \<and> n \<le> 90 then Some (int n - 65)
      else if 97 \<le> n \<and> n \<le> 122 then Some (int n - 71)
      else if 48 \<le> n \<and> n \<le> 57 then Some (int n + 4)
      else if n = 43 \<or> n = 45 then Some 62
      else if n = 47 \<or> n = 95 then Some 63
      else None)"

fun b64_bytes :: "int list \<Rightarrow> byte list" where
  "b64_bytes (a # b # c # d # rest) =
     word_of_int (push_bit 2 a OR drop_bit 4 b) #
     word_of_int (push_bit 4 (b AND 15) OR drop_bit 2 c) #
     word_of_int (push_bit 6 (c AND 3) OR d) # b64_bytes rest"
| "b64_bytes [a, b, c] =
     [word_of_int (push_bit 2 a OR drop_bit 4 b),
      word_of_int (push_bit 4 (b AND 15) OR drop_bit 2 c)]"
| "b64_bytes [a, b] = [word_of_int (push_bit 2 a OR drop_bit 4 b)]"
| "b64_bytes _ = []"

definition Buffer_from_base64 :: "string \<Rightarrow> byte list" where
  "Buffer_from_base64 s =
     b64_bytes (List.map_filter b64_value (takeWhile (\<lambda>c. c \<noteq> CHR ''='') s))"

text \<open>The bytes of a string in UTF-8; a \<open>char\<close> is one byte.\<close>

definition utf8 :: "string \<Rightarrow> byte list" where
  "utf8 s = map of_char s"

text \<open>
  SHA-1 (FIPS 180-4) on 32-bit words written as integers with the wrap-around spelled
  out, and HMAC (RFC 2104) over it: what \<open>crypto.createHmac('sha1', key)\<close>,
  \<open>update\<close> and \<open>digest\<close> compute. Lengths are taken as integers.
\<close>

definition add32 :: "int \<Rightarrow> int \<Rightarrow> int" where
  "add32 x y = take_bit 32 (x + y)"

definition rotl32 :: "nat \<Rightarrow> int \<Rightarrow> int" where
  "rotl32 n x = take_bit 32 (push_bit n x) OR drop_bit (32 - n) x"

definition byte_of :: "nat \<Rightarrow> int \<Rightarrow> byte" where
  "byte_of k n = word_of_int (take_bit 8 (drop_bit (8 * k) n))"

definition be_bytes8 :: "int \<Rightarrow> byte list" where
  "be_bytes8 n = [byte_of 7 n, byte_of 6 n, byte_of 5 n, byte_of 4 n,
                  byte_of 3 n, byte_of 2 n, byte_of 1 n, byte_of 0 n]"

definition sha1_pad :: "byte list \<Rightarrow> byte list" where
  "sha1_pad m =
     m @ [0x80] @ replicate (nat ((119 - int (length m)) mod 64)) 0 @
     be_bytes8 (8 * int (length m))"

fun be_words :: "byte list \<Rightarrow> int list" where
  "be_words (a # b # c # d # rest) =
     (push_bit 24 (uint a) OR push_bit 16 (uint b) OR push_bit 8 (uint c) OR uint d) #
     be_words rest"
| "be_words _ = []"

definition sha1_f :: "nat \<Rightarrow> int \<Rightarrow> int \<Rightarrow> int \<Rightarrow> int" where
  "sha1_f t b c d =
     (if t < 20 then (b AND c) OR ((b XOR 0xFFFFFFFF) AND d)
      else if t < 40 then b XOR c XOR d
      else if t < 60 then (b AND c) OR (b AND d) OR (c AND d)
      else b XOR c XOR d)"

definition sha1_k :: "nat \<Rightarrow> int" where
  "sha1_k t =
     (if t < 20 then 0x5A827999 else if t < 40 then 0x6ED9EBA1
      else if t < 60 then 0x8F1BBCDC else 0xCA62C1D6)"

type_synonym sha1_state = "int \<times> int \<times> int \<times> int \<times> int"

text \<open>The message schedule is kept as a window of the last sixteen words.\<close>

definition sha1_next_w :: "int list \<Rightarrow> int list" where
  "sha1_next_w w = tl w @ [rotl32 1 (w ! 13 XOR w ! 8 XOR w ! 2 XOR w ! 0)]"

fun sha1_round :: "nat \<Rightarrow> int \<Rightarrow> sha1_state \<Rightarrow> sha1_state" where
  "sha1_round t wt (a, b, c, d, e) =
     (add32 (add32 (add32 (add32 (rotl32 5 a) (sha1_f t b c d)) e) (sha1_k t)) wt,
      a, rotl32 30 b, c, d)"

function sha1_rounds :: "nat \<Rightarrow> int list \<Rightarrow> sha1_state \<Rightarrow> sha1_state" where
  "sha1_rounds t w s =
     (if 80 \<le> t then s
      else sha1_rounds (t + 1) (sha1_next_w w) (sha1_round t (hd w) s))"
  by pat_completeness auto
termination
  by (relation "measure (\<lambda>(t, w, s). 80 - t)") auto

declare sha1_rounds.simps [simp del]

fun sha1_add :: "sha1_state \<Rightarrow> sha1_state \<Rightarrow> sha1_state" where
  "sha1_add (h0, h1, h2, h3, h4) (a, b, c, d, e) =
     (add32 h0 a, add32 h1 b, add32 h2 c, add32 h3 d, add32 h4 e)"

definition sha1_block :: "sha1_state \<Rightarrow> byte list \<Rightarrow> sha1_state" where
  "sha1_block h blk = sha1_add h (sha1_rounds 0 (be_words blk) h)"

function sha1_blocks :: "sha1_state \<Rightarrow> byte list \<Rightarrow> sha1_state" where
  "sha1_blocks h bs =
     (if int (length bs) < 64 then h
      else sha1_blocks (sha1_block h (take 64 bs)) (drop 64 bs))"
  by pat_completeness auto
termination
  by (relation "measure (\<lambda>(h, bs). length bs)") auto

declare sha1_blocks.simps [simp del]

definition w32_bytes :: "int \<Rightarrow> byte list" where
  "w32_bytes w = [byte_of 3 w, byte_of 2 w, byte_of 1 w, byte_of 0 w]"

fun sha1_out :: "sha1_state \<Rightarrow> byte list" where
  "sha1_out (a, b, c, d, e) =
     w32_bytes a @ w32_bytes b @ w32_bytes c @ w32_bytes d @ w32_bytes e"

definition sha1_init :: sha1_state where
  "sha1_init = (0x67452301, 0xEFCDAB89, 0x98BADCFE, 0x10325476, 0xC3D2E1F0)"

definition sha1 :: "byte list \<Rightarrow> byte list" where
  "sha1 m = sha1_out (sha1_blocks sha1_init (sha1_pad m))"

definition createHmac_sha1 :: "byte list \<Rightarrow> byte list \<Rightarrow> byte list" where
  "createHmac_sha1 key msg =
     (let k0 = (if 64 < int (length key) then sha1 key else key);
          k = k0 @ replicate (nat (64 - int (length k0))) 0
      in sha1 (map (\<lambda>b. b XOR 0x5c) k @ sha1 (map (\<lambda>b. b XOR 0x36) k @ msg)))"

section \<open>Code generator (admin.service.ts)\<close>

definition dynamicTruncationFn :: "byte list \<Rightarrow> int" where
  "dynamicTruncationFn hmacValue =
     (let offset = js_and (js_num (buffer_at hmacValue (int (length hmacValue) - 1))) 0xf
      in js_or (js_or (js_or
           (js_shl (js_and (js_num (buffer_at hmacValue offset)) 0x7f) 24)
           (js_shl (js_and (js_num (buffer_at hmacValue (offset + 1))) 0xff) 16))
           (js_shl (js_and (js_num (buffer_at hmacValue (offset + 2))) 0xff) 8))
           (js_and (js_num (buffer_at hmacValue (offset + 3))) 0xff))"

text \<open>
  The loop \<open>for (let i = 0; i < 8; i++) { buffer[7 - i] = counter & 0xff; counter = counter >> 8 }\<close>.
  Storing into a Buffer keeps the low eight bits of the value.
\<close>

function fillCounter :: "nat \<Rightarrow> int \<Rightarrow> byte list \<Rightarrow> byte list" where
  "fillCounter i counter buffer =
     (if i < 8
      then fillCounter (i + 1) (js_sar counter 8)
             (buffer[7 - i := word_of_int (js_and counter 0xff)])
      else buffer)"
  by pat_completeness auto
termination
  by (relation "measure (\<lambda>(i, counter, buffer). 8 - i)") auto

declare fillCounter.simps [simp del]

text \<open>The two Buffers \<open>generateHOTP\<close> hands to the HMAC: the key and the message.\<close>

definition decodedSecret :: "string \<Rightarrow> byte list" where
  "decodedSecret secret = Buffer_from_base64 secret"

definition counterBuffer :: "int \<Rightarrow> byte list" where
  "counterBuffer counter = fillCounter 0 counter (replicate 8 0)"

definition generateHOTP :: "string \<Rightarrow> int \<Rightarrow> int" where
  "generateHOTP secret counter =
     (let hmacResult = createHmac_sha1 (decodedSecret secret) (counterBuffer counter);
          code = dynamicTruncationFn hmacResult
      in js_rem code (10 ^ 6))"

text \<open>
  \<open>generateTOTP\<close> reads the clock; \<open>now\<close> is the value of \<open>Date.now()\<close>, in
  milliseconds. The default window is 0.
\<close>

definition generateTOTP :: "int \<Rightarrow> string \<Rightarrow> int \<Rightarrow> int" where
  "generateTOTP now secret window = generateHOTP secret (now div 1000 + window)"

section \<open>Errors\<close>

text \<open>
  \<open>BadRequestError\<close> and \<open>ForbiddenError\<close> are the HTTP errors the services throw, with
  their messages. \<open>TypeError\<close> is what JavaScript throws on reading a property of
  \<open>undefined\<close>. \<open>DecodingError\<close> and \<open>GuardError\<close> stand for failures raised by code
  that is not among the sources (the payload decoder and the request guards).
\<close>

datatype error =
    BadRequestError string
  | ForbiddenError string
  | TypeError
  | DecodingError
  | GuardError string

section \<open>Code codec and code issuance (door.interface.ts, admin.service.ts)\<close>

text \<open>
  The fields \<open>userID\<close>, \<open>roomID\<close>, \<open>nationalID\<close> and \<open>secret\<close> of
  \<open>DoorLockCodeEncodeInput\<close> carry the prefix \<open>input_\<close>, to keep them apart from the
  parameters of the same names.
\<close>

record doorLockCodeEncodeInput =
  input_userID :: string
  input_roomID :: string
  input_nationalID :: string
  input_secret :: string

definition encode :: "doorLockCodeEncodeInput \<Rightarrow> string" where
  "encode input =
     input_userID input @ ''|'' @ input_roomID input @ ''|'' @ input_nationalID input @ ''|'' @
     input_secret input"

text \<open>
  Modelled from the spec: the decoder (door.service.ts) is not among the sources. The
  spec has it split the payload on the delimiter into exactly four parts and fail with a
  decoding error when the field count is wrong.
\<close>

definition decode :: "string \<Rightarrow> error + doorLockCodeEncodeInput" where
  "decode payload =
     (case split_on CHR ''|'' payload of
        [a, b, c, d] \<Rightarrow> Inr \<lparr>input_userID = a, input_roomID = b, input_nationalID = c, input_secret = d\<rparr>
      | _ \<Rightarrow> Inl DecodingError)"

record staff =
  id_staff :: string
  password :: string

text \<open>
  \<open>getDoorLockInput\<close> takes the repository lookup \<open>findStaffById\<close> (the injected
  \<open>adminRepository\<close>) and the clock as parameters.
\<close>

definition getDoorLockInput ::
  "(string \<Rightarrow> staff option) \<Rightarrow> int \<Rightarrow> string \<Rightarrow> error + doorLockCodeEncodeInput" where
  "getDoorLockInput findStaffById now staffID =
     (case findStaffById staffID of
        None \<Rightarrow> Inl (BadRequestError ''Request failed. Staff ID is invalid.'')
      | Some staff \<Rightarrow>
          (let dummyRoomID = ''9999'';
               dummyStaffNationalID = ''1234567890123'';
               secret = toString (generateTOTP now (staffID @ dummyRoomID @ dummyStaffNationalID) 300)
           in Inr \<lparr>input_userID = staffID, input_roomID = dummyRoomID,
                    input_nationalID = dummyStaffNationalID,
                    input_secret = padStart 6 CHR ''0'' secret\<rparr>))"

section \<open>Room permission evaluator (room.service.ts)\<close>

record room =
  id_room :: int

record reservation =
  id_reservation :: string
  guest_id :: string
  check_in :: int
  check_out :: int
  rooms :: "room list"

record guestReservationRoom =
  guest_email :: string
  reservation_id :: string
  room_id :: int

text \<open>
  The service receives its repositories by injection; they are records of functions over
  a database state \<open>'db\<close>. A lookup that finds nothing returns \<open>undefined\<close>, here
  \<open>None\<close>.
\<close>

record 'db roomRepository =
  findReservationById :: "'db \<Rightarrow> string \<Rightarrow> reservation option"
  findReservationIn :: "'db \<Rightarrow> string \<Rightarrow> string \<Rightarrow> int \<Rightarrow> reservation option"
  findGuestRoomReservation :: "'db \<Rightarrow> string \<Rightarrow> string \<Rightarrow> guestReservationRoom option"
  createGuestRoomReservation ::
    "'db \<Rightarrow> string \<Rightarrow> string \<Rightarrow> int \<Rightarrow> guestReservationRoom \<times> 'db"

record 'db reservationRepository =
  getReservation :: "'db \<Rightarrow> string \<Rightarrow> reservation option"

record 'db roomService =
  roomRepository :: "'db roomRepository"
  reservationRepository :: "'db reservationRepository"

definition checkIsReservationOwner ::
  "'db roomService \<Rightarrow> 'db \<Rightarrow> string \<Rightarrow> string \<Rightarrow> error + bool" where
  "checkIsReservationOwner svc db guestID reservationID =
     (case findReservationById (roomRepository svc) db reservationID of
        None \<Rightarrow> Inl (BadRequestError ''Invalid reservation id.'')
      | Some reservation \<Rightarrow> Inr (guest_id reservation = guestID))"

text \<open>\<open>shareRoom\<close> returns its result together with the database state it leaves.\<close>

definition shareRoom ::
  "'db roomService \<Rightarrow> 'db \<Rightarrow> string \<Rightarrow> string \<Rightarrow> string \<Rightarrow> int
     \<Rightarrow> (error + guestReservationRoom) \<times> 'db" where
  "shareRoom svc db ownerID email reservationID roomID =
     (case checkIsReservationOwner svc db ownerID reservationID of
        Inl e \<Rightarrow> (Inl e, db)
      | Inr isOwner \<Rightarrow>
          if \<not> isOwner
          then (Inl (ForbiddenError ''Can not share room. You did not make this reservation.''), db)
          else (case createGuestRoomReservation (roomRepository svc) db email reservationID roomID of
                  (created, db') \<Rightarrow> (Inr created, db')))"

definition allRoomsInReservation :: "'db roomService \<Rightarrow> 'db \<Rightarrow> string \<Rightarrow> error + int list" where
  "allRoomsInReservation svc db reservationID =
     (case getReservation (reservationRepository svc) db reservationID of
        None \<Rightarrow> Inl TypeError
      | Some reservation \<Rightarrow> Inr (map id_room (rooms reservation)))"

definition roomShared :: "'db roomService \<Rightarrow> 'db \<Rightarrow> string \<Rightarrow> string \<Rightarrow> error + int" where
  "roomShared svc db email reservationID =
     (case findGuestRoomReservation (roomRepository svc) db email reservationID of
        None \<Rightarrow> Inl TypeError
      | Some shared \<Rightarrow> Inr (room_id shared))"

definition findRoomsThatCanEnter ::
  "'db roomService \<Rightarrow> 'db \<Rightarrow> string \<Rightarrow> string \<Rightarrow> int \<Rightarrow> error + int list" where
  "findRoomsThatCanEnter svc db guestID email date =
     (case findReservationIn (roomRepository svc) db guestID email date of
        None \<Rightarrow> Inl (BadRequestError ''Not checked in.'')
      | Some reservation \<Rightarrow>
          (case checkIsReservationOwner svc db guestID (id_reservation reservation) of
             Inl e \<Rightarrow> Inl e
           | Inr isOwner \<Rightarrow>
               if isOwner then allRoomsInReservation svc db (id_reservation reservation)
               else (case roomShared svc db email (id_reservation reservation) of
                       Inl e \<Rightarrow> Inl e
                     | Inr r \<Rightarrow> Inr [r])))"

definition hasPermissionToEnterRoom ::
  "'db roomService \<Rightarrow> 'db \<Rightarrow> string \<Rightarrow> string \<Rightarrow> int \<Rightarrow> int \<Rightarrow> error + bool" where
  "hasPermissionToEnterRoom svc db guestID email date roomID =
     (case findReservationIn (roomRepository svc) db guestID email date of
        None \<Rightarrow> Inl (BadRequestError ''Not checked in.'')
      | Some reservation \<Rightarrow>
          if guest_id reservation = guestID
          then (case allRoomsInReservation svc db (id_reservation reservation) of
                  Inl e \<Rightarrow> Inl e
                | Inr rooms' \<Rightarrow> Inr (roomID \<in> set rooms'))
          else (case roomShared svc db email (id_reservation reservation) of
                  Inl e \<Rightarrow> Inl e
                | Inr room \<Rightarrow> Inr (room = roomID)))"

text \<open>
  Modelled from the spec: room.repository.ts and reservation.repository.ts are not among
  the sources. The spec describes a reservation lookup by guest or grantee and date,
  which returns the first reservation whose check-in window covers the date, and a grant
  store supporting create and lookup by (email, reservation). The in-memory store below
  keeps reservations and grants in insertion order. The spec does not say which grant the
  lookup returns when several match: that choice is the parameter \<open>pick\<close>, applied to
  the matching grants.
\<close>

record store =
  reservations :: "reservation list"
  grants :: "guestReservationRoom list"

definition store_findReservationById :: "store \<Rightarrow> string \<Rightarrow> reservation option" where
  "store_findReservationById st rid = find (\<lambda>r. id_reservation r = rid) (reservations st)"

definition store_findReservationIn :: "store \<Rightarrow> string \<Rightarrow> string \<Rightarrow> int \<Rightarrow> reservation option" where
  "store_findReservationIn st guestID email date =
     find (\<lambda>r. check_in r \<le> date \<and> date \<le> check_out r \<and>
               (guest_id r = guestID \<or>
                list_ex (\<lambda>g. guest_email g = email \<and> reservation_id g = id_reservation r)
                  (grants st)))
       (reservations st)"

type_synonym grantPick = "guestReservationRoom list \<Rightarrow> guestReservationRoom option"

definition store_findGuestRoomReservation ::
  "grantPick \<Rightarrow> store \<Rightarrow> string \<Rightarrow> string \<Rightarrow> guestReservationRoom option" where
  "store_findGuestRoomReservation pick st email rid =
     pick (filter (\<lambda>g. guest_email g = email \<and> reservation_id g = rid) (grants st))"

definition store_createGuestRoomReservation ::
  "store \<Rightarrow> string \<Rightarrow> string \<Rightarrow> int \<Rightarrow> guestReservationRoom \<times> store" where
  "store_createGuestRoomReservation st email rid roomID =
     (let created = \<lparr>guest_email = email, reservation_id = rid, room_id = roomID\<rparr>
      in (created, st\<lparr>grants := grants st @ [created]\<rparr>))"

definition storeService :: "grantPick \<Rightarrow> store roomService" where
  "storeService pick =
     \<lparr>roomRepository =
        \<lparr>findReservationById = store_findReservationById,
         findReservationIn = store_findReservationIn,
         findGuestRoomReservation = store_findGuestRoomReservation pick,
         createGuestRoomReservation = store_createGuestRoomReservation\<rparr>,
      reservationRepository = \<lparr>getReservation = store_findReservationById\<rparr>\<rparr>"

section \<open>Code verification and the code routes (door.router.ts)\<close>

text \<open>
  Modelled from the spec: \<open>DoorLockCodeService.verify\<close> (door.service.ts) is not among
  the sources; only the route that calls it is. The spec has it decode the payload,
  recompute the expected code for the current instant (window offset 0) from the three
  identity fields of the payload, and compare it with the presented code.
\<close>

definition verify :: "int \<Rightarrow> string \<Rightarrow> error + bool" where
  "verify now encoded =
     (case decode encoded of
        Inl e \<Rightarrow> Inl e
      | Inr input \<Rightarrow>
          Inr (input_secret input =
               padStart 6 CHR ''0''
                 (toString (generateTOTP now
                    (input_userID input @ input_roomID input @ input_nationalID input) 0))))"

text \<open>The query string of \<open>GET /door/generate\<close>.\<close>

record generateQuery =
  query_userID :: string
  query_roomID :: string

text \<open>
  The route handler of \<open>GET /door/generate\<close> calls
  \<open>doorlockCodeService.getDoorLockInput(req.query.userID, req.query.roomID)\<close> and
  then \<open>doorlockCodeService.encode(input)\<close>. The service is a record of the two
  methods the handler uses.
\<close>

record doorLockCodeService =
  service_getDoorLockInput :: "string \<Rightarrow> string \<Rightarrow> error + doorLockCodeEncodeInput"
  service_encode :: "doorLockCodeEncodeInput \<Rightarrow> string"

definition generate_route :: "doorLockCodeService \<Rightarrow> generateQuery \<Rightarrow> error + string" where
  "generate_route service query =
     (case service_getDoorLockInput service (query_userID query) (query_roomID query) of
        Inl e \<Rightarrow> Inl e
      | Inr input \<Rightarrow> Inr (service_encode service input))"

text \<open>
  Modelled from the spec: \<open>DoorLockCodeService\<close> (door.service.ts) is not among the
  sources. The spec has code issuance look the subject up and build the identity triple
  from the subject and two fixed placeholders, so that the room supplied by the caller is
  ignored, and has \<open>encode\<close> join the four fields with the delimiter. Both are what
  \<open>getDoorLockInput\<close> and \<open>encode\<close> of admin.service.ts do; the service stands on
  them, with the staff lookup and the clock as parameters.
\<close>

definition doorlockCodeService ::
  "(string \<Rightarrow> staff option) \<Rightarrow> int \<Rightarrow> doorLockCodeService" where
  "doorlockCodeService findStaffById now =
     \<lparr>service_getDoorLockInput = (\<lambda>userID roomID. getDoorLockInput findStaffById now userID),
      service_encode = encode\<rparr>"

section \<open>Access gate and actuation dispatch (app.ts)\<close>

record mqttClient =
  published :: "(string \<times> string) list"

definition publish :: "string \<Rightarrow> string \<Rightarrow> mqttClient \<Rightarrow> mqttClient" where
  "publish topic message client = client\<lparr>published := published client @ [(topic, message)]\<rparr>"

datatype response = Sent string | Failed error | NotRouted

text \<open>
  The middlewares \<open>isAuthenticated\<close>, \<open>isInRoom\<close> and \<open>isCheckedIn\<close> and the error
  handler are not among the sources: the guards are parameters. A guard either calls
  \<open>next()\<close>, handing on the request (which it may have extended, for instance with the
  resolved identity), or fails with an error, which ends the chain and reaches the error
  handler.
\<close>

type_synonym 'req middleware = "'req \<Rightarrow> error + 'req"

record 'req guards =
  isAuthenticated :: "'req middleware"
  isInRoom :: "'req middleware"
  isCheckedIn :: "'req middleware"

fun runHandlers ::
  "'req middleware list \<Rightarrow> ('req \<Rightarrow> mqttClient \<Rightarrow> response \<times> mqttClient)
     \<Rightarrow> 'req \<Rightarrow> mqttClient \<Rightarrow> response \<times> mqttClient" where
  "runHandlers [] final req client = final req client"
| "runHandlers (m # ms) final req client =
     (case m req of
        Inl e \<Rightarrow> (Failed e, client)
      | Inr req' \<Rightarrow> runHandlers ms final req' client)"

definition actuate :: "string \<Rightarrow> 'req \<Rightarrow> mqttClient \<Rightarrow> response \<times> mqttClient" where
  "actuate command req client = (Sent ''eyy'', publish ''door'' command client)"

text \<open>
  The three \<open>app.post\<close> routes of \<open>main\<close>. The router mounted before them has no
  POST route under \<open>/door\<close>, so such a request falls through to these.
\<close>

definition app_post ::
  "'req guards \<Rightarrow> string \<Rightarrow> 'req \<Rightarrow> mqttClient \<Rightarrow> response \<times> mqttClient" where
  "app_post g path req client =
     (if path = ''/door/lock''
      then runHandlers [isAuthenticated g, isInRoom g, isCheckedIn g] (actuate ''lock'') req client
      else if path = ''/door/unlock''
      then runHandlers [isAuthenticated g, isInRoom g, isCheckedIn g] (actuate ''unlock'') req client
      else if path = ''/door/sound''
      then runHandlers [isAuthenticated g, isInRoom g, isCheckedIn g] (actuate ''sound'') req client
      else (NotRouted, client))"

section \<open>The reference definition of the code, in the words of the specification\<close>

text \<open>
  RFC-4226-style HOTP as the specification words it: the counter as an 8-byte big-endian
  unsigned integer, an HMAC-SHA1 over it under the key, the low nibble of the last byte
  of the 20-byte digest as an offset, the four bytes from that offset as a big-endian
  32-bit value with the top bit masked off, reduced modulo 1,000,000.
\<close>

definition hotp_reference :: "byte list \<Rightarrow> int \<Rightarrow> int" where
  "hotp_reference key counter =
     (let digest = createHmac_sha1 key (be_bytes8 counter);
          offset = unat (digest ! 19) mod 16;
          p = ((uint (digest ! offset) * 256 + uint (digest ! (offset + 1))) * 256
                 + uint (digest ! (offset + 2))) * 256 + uint (digest ! (offset + 3))
      in (p mod 2 ^ 31) mod 1000000)"

section \<open>Example data\<close>

definition example_reservation :: reservation where
  "example_reservation =
     \<lparr>id_reservation = ''R'', guest_id = ''owner'', check_in = 10, check_out = 20,
      rooms = [\<lparr>id_room = 1\<rparr>, \<lparr>id_room = 2\<rparr>, \<lparr>id_room = 3\<rparr>]\<rparr>"

definition example_store :: store where
  "example_store = \<lparr>reservations = [example_reservation], grants = []\<rparr>"

definition example_staff :: "string \<Rightarrow> staff option" where
  "example_staff sid =
     (if sid = ''s1'' then Some \<lparr>id_staff = ''s1'', password = ''hash''\<rparr> else None)"

text \<open>Guards over a request that carries a bearer token and a room number.\<close>

definition example_guards :: "(string \<times> int) guards" where
  "example_guards =
     \<lparr>isAuthenticated = (\<lambda>req. if fst req = ''token'' then Inr req else Inl (GuardError ''Unauthorized'')),
      isInRoom = (\<lambda>req. if snd req = 2 then Inr req else Inl (GuardError ''Not in room'')),
      isCheckedIn = (\<lambda>req. Inr req)\<rparr>"

text \<open>
  In the examples at most one grant matches a lookup; the example store then returns it.
\<close>

definition example_pick :: grantPick where
  "example_pick gs = (case gs of [] \<Rightarrow> None | g # _ \<Rightarrow> Some g)"

section \<open>Reading a decimal string\<close>

text \<open>The value of a string of decimal digits, used to compare rendered codes.\<close>

definition digit_val :: "char \<Rightarrow> nat" where
  "digit_val c = of_char c - 48"

definition parse_decimal :: "string \<Rightarrow> nat" where
  "parse_decimal s = foldl (\<lambda>a c. 10 * a + digit_val c) 0 s"

section \<open>Helper lemmas\<close>

lemma split_on_not_Nil: "split_on c s \<noteq> []"
  by (induction s) (auto split: list.splits)

lemma split_on_no_sep: "c \<notin> set a \<Longrightarrow> split_on c a = [a]"
  by (induction a) auto

lemma split_on_field: "c \<notin> set a \<Longrightarrow> split_on c (a @ c # rest) = a # split_on c rest"
  by (induction a) (auto simp: split_on_not_Nil split: list.splits)

lemma runHandlers_three:
  "runHandlers [m1, m2, m3] final req client =
     (case m1 req of Inl e \<Rightarrow> (Failed e, client)
      | Inr r1 \<Rightarrow> (case m2 r1 of Inl e \<Rightarrow> (Failed e, client)
         | Inr r2 \<Rightarrow> (case m3 r2 of Inl e \<Rightarrow> (Failed e, client)
            | Inr r3 \<Rightarrow> final r3 client)))"
  by (simp split: sum.splits)

lemma example_lookup_owner:
  "store_findReservationIn example_store ''owner'' ''owner@example.com'' 15 = Some example_reservation"
  by (simp add: store_findReservationIn_def example_store_def example_reservation_def)

lemma example_getReservation:
  "store_findReservationById example_store ''R'' = Some example_reservation"
  by (simp add: store_findReservationById_def example_store_def example_reservation_def)

lemma decode_encode:
  assumes "CHR ''|'' \<notin> set (input_userID i)" "CHR ''|'' \<notin> set (input_roomID i)"
    "CHR ''|'' \<notin> set (input_nationalID i)" "CHR ''|'' \<notin> set (input_secret i)"
  shows "decode (encode i) = Inr i"
proof -
  from assms have "split_on CHR ''|'' (encode i) =
      [input_userID i, input_roomID i, input_nationalID i, input_secret i]"
    by (simp add: encode_def split_on_field split_on_no_sep)
  then show ?thesis
    by (simp add: decode_def)
qed

lemma split_on_length: "length (split_on c s) = Suc (length (filter (\<lambda>x. x = c) s))"
  by (induction s) (auto simp: split_on_not_Nil split: list.splits)

lemma decode_field_count:
  "length (split_on CHR ''|'' payload) \<noteq> 4 \<Longrightarrow> decode payload = Inl DecodingError"
  by (auto simp: decode_def split: list.splits)

lemma decode_encode_delimiter:
  assumes "CHR ''|'' \<in> set (input_userID i)"
  shows "decode (encode i) = Inl DecodingError"
proof -
  from assms have "filter (\<lambda>x. x = CHR ''|'') (input_userID i) \<noteq> []"
    by (simp add: filter_empty_conv)
  then have "0 < length (filter (\<lambda>x. x = CHR ''|'') (input_userID i))"
    by simp
  then have "length (split_on CHR ''|'' (encode i)) \<noteq> 4"
    by (simp add: split_on_length encode_def)
  then show ?thesis
    by (rule decode_field_count)
qed

subsection \<open>The range of the code and its rendering\<close>

lemma ToInt32_id: "0 \<le> x \<Longrightarrow> x < 2147483648 \<Longrightarrow> ToInt32 x = x"
  by (simp add: ToInt32_def signed_take_bit_int_eq_self)

lemma js_and_mask:
  assumes "0 \<le> m" "m < 2147483648"
  shows "js_and x m = ToInt32 x AND m" "0 \<le> js_and x m" "js_and x m \<le> m"
  using assms by (simp_all add: js_and_def ToInt32_id)

lemma js_shl_small:
  assumes "0 \<le> x" "x * 2 ^ n < 2147483648" "n < 32"
  shows "js_shl x n = x * 2 ^ n"
proof -
  have "x \<le> x * 2 ^ n"
    using assms(1) by (simp add: mult_le_cancel_left1)
  with assms have "ToInt32 x = x"
    by (simp add: ToInt32_id)
  moreover have "0 \<le> x * 2 ^ n"
    using assms(1) by simp
  ultimately show ?thesis
    using assms by (simp add: js_shl_def push_bit_eq_mult ToInt32_id)
qed

lemma js_or_small:
  assumes "0 \<le> x" "x < 2147483648" "0 \<le> y" "y < 2147483648"
  shows "js_or x y = x OR y" "0 \<le> js_or x y" "js_or x y < 2147483648"
proof -
  show e: "js_or x y = x OR y"
    using assms by (simp add: js_or_def ToInt32_id)
  show "0 \<le> js_or x y"
    using assms by (simp add: e)
  have "x OR y < 2 ^ 31"
    using assms by (intro OR_upper) simp_all
  then show "js_or x y < 2147483648"
    by (simp add: e)
qed

lemma dynamicTruncationFn_range:
  "0 \<le> dynamicTruncationFn h \<and> dynamicTruncationFn h < 2147483648"
proof -
  define off where "off = js_and (js_num (buffer_at h (int (length h) - 1))) 0xf"
  define a where "a = js_and (js_num (buffer_at h off)) 0x7f"
  define b where "b = js_and (js_num (buffer_at h (off + 1))) 0xff"
  define c where "c = js_and (js_num (buffer_at h (off + 2))) 0xff"
  define d where "d = js_and (js_num (buffer_at h (off + 3))) 0xff"
  have ra: "0 \<le> a" "a \<le> 127" and rb: "0 \<le> b" "b \<le> 255"
    and rc: "0 \<le> c" "c \<le> 255" and rd: "0 \<le> d" "d \<le> 255"
    by (simp_all add: a_def b_def c_def d_def js_and_mask)
  have sa: "js_shl a 24 = a * 2 ^ 24" and sb: "js_shl b 16 = b * 2 ^ 16"
    and sc: "js_shl c 8 = c * 2 ^ 8"
    using ra rb rc by (simp_all add: js_shl_small)
  have A: "0 \<le> js_shl a 24" "js_shl a 24 < 2147483648"
    using ra by (simp_all add: sa)
  have B: "0 \<le> js_shl b 16" "js_shl b 16 < 2147483648"
    using rb by (simp_all add: sb)
  have C: "0 \<le> js_shl c 8" "js_shl c 8 < 2147483648"
    using rc by (simp_all add: sc)
  have D: "0 \<le> d" "d < 2147483648"
    using rd by simp_all
  note AB = js_or_small [OF A B]
  note ABC = js_or_small [OF AB(2,3) C]
  note ABCD = js_or_small [OF ABC(2,3) D]
  have "dynamicTruncationFn h =
      js_or (js_or (js_or (js_shl a 24) (js_shl b 16)) (js_shl c 8)) d"
    by (simp add: dynamicTruncationFn_def Let_def off_def a_def b_def c_def d_def)
  with ABCD show ?thesis by simp
qed

lemma js_rem_range: "0 \<le> a \<Longrightarrow> 0 < b \<Longrightarrow> 0 \<le> js_rem a b \<and> js_rem a b < b"
  by (cases "a = 0") (simp_all add: js_rem_def)

lemma generateHOTP_range: "0 \<le> generateHOTP secret counter \<and> generateHOTP secret counter < 1000000"
  using js_rem_range [of "dynamicTruncationFn (createHmac_sha1 (decodedSecret secret) (counterBuffer counter))" 1000000]
    dynamicTruncationFn_range
  by (simp add: generateHOTP_def Let_def)

lemma digit_char_digit: "d < 10 \<Longrightarrow> digit_char d \<in> set ''0123456789''"
  unfolding digit_char_def by (rule nth_mem) simp

lemma digits_set: "set (digits n) \<subseteq> set ''0123456789''"
proof (induction n rule: digits.induct)
  case (1 n)
  show ?case
  proof (cases "n < 10")
    case True
    then show ?thesis
      using digit_char_digit [of n] by (subst digits.simps) simp
  next
    case False
    have "n mod 10 < 10" by simp
    from digit_char_digit [OF this] 1 False show ?thesis
      by (subst digits.simps) simp
  qed
qed

lemma digits_length: "n < 10 ^ k \<Longrightarrow> 0 < k \<Longrightarrow> length (digits n) \<le> k"
proof (induction n arbitrary: k rule: digits.induct)
  case (1 n)
  show ?case
  proof (cases "n < 10")
    case True
    then show ?thesis
      using 1(3) by (subst digits.simps) simp
  next
    case False
    from 1(3) obtain j where k: "k = Suc j" by (cases k) auto
    with False 1(2) have j: "0 < j" by (cases j) auto
    from 1(2) k have "n div 10 < 10 ^ j"
      by (simp add: less_mult_imp_div_less mult.commute)
    from 1(1) [OF False this j] k False show ?thesis
      by (subst digits.simps) simp
  qed
qed

lemma padStart_code_shape:
  assumes "0 \<le> n" "n < 1000000"
  shows "length (padStart 6 CHR ''0'' (toString n)) = 6"
    and "set (padStart 6 CHR ''0'' (toString n)) \<subseteq> set ''0123456789''"
proof -
  have "nat n < 10 ^ 6" using assms by simp
  then have l: "length (digits (nat n)) \<le> 6"
    by (rule digits_length) simp
  then show "length (padStart 6 CHR ''0'' (toString n)) = 6"
    using assms by (simp add: padStart_def toString_def)
  show "set (padStart 6 CHR ''0'' (toString n)) \<subseteq> set ''0123456789''"
    using assms digits_set [of "nat n"] by (auto simp: padStart_def toString_def)
qed

lemma digit_val_digit_char: "d < 10 \<Longrightarrow> digit_val (digit_char d) = d"
proof -
  assume "d < 10"
  then have "d = 0 \<or> d = 1 \<or> d = 2 \<or> d = 3 \<or> d = 4 \<or> d = 5 \<or> d = 6 \<or> d = 7 \<or> d = 8 \<or> d = 9"
    by arith
  then show ?thesis
    by (elim disjE) (simp_all add: digit_val_def digit_char_def)
qed

lemma parse_decimal_snoc: "parse_decimal (xs @ [c]) = 10 * parse_decimal xs + digit_val c"
  by (simp add: parse_decimal_def)

lemma parse_decimal_digits: "parse_decimal (digits n) = n"
proof (induction n rule: digits.induct)
  case (1 n)
  show ?case
  proof (cases "n < 10")
    case True
    then show ?thesis
      by (subst digits.simps) (simp add: parse_decimal_def digit_val_digit_char)
  next
    case False
    with 1 show ?thesis
      by (subst digits.simps) (simp add: parse_decimal_snoc digit_val_digit_char)
  qed
qed

lemma parse_decimal_zeros: "parse_decimal (replicate k CHR ''0'' @ s) = parse_decimal s"
proof -
  have "foldl (\<lambda>a c. 10 * a + digit_val c) 0 (replicate k CHR ''0'') = 0"
    by (induction k) (simp_all add: digit_val_def)
  then show ?thesis
    by (simp add: parse_decimal_def)
qed

lemma parse_decimal_code: "0 \<le> n \<Longrightarrow> parse_decimal (padStart 6 CHR ''0'' (toString n)) = nat n"
  by (simp add: padStart_def toString_def parse_decimal_zeros parse_decimal_digits)

lemma padded_code_inject:
  assumes "0 \<le> a" "0 \<le> b"
  shows "padStart 6 CHR ''0'' (toString a) = padStart 6 CHR ''0'' (toString b) \<longleftrightarrow> a = b"
proof
  assume "padStart 6 CHR ''0'' (toString a) = padStart 6 CHR ''0'' (toString b)"
  then have "parse_decimal (padStart 6 CHR ''0'' (toString a)) =
      parse_decimal (padStart 6 CHR ''0'' (toString b))"
    by simp
  with assms show "a = b"
    by (simp add: parse_decimal_code)
qed simp

lemma generateTOTP_range:
  "0 \<le> generateTOTP now secret window \<and> generateTOTP now secret window < 1000000"
  by (simp add: generateTOTP_def generateHOTP_range)

lemma getDoorLockInput_found:
  assumes "findStaffById staffID = Some staff"
  shows "getDoorLockInput findStaffById now staffID =
     Inr \<lparr>input_userID = staffID, input_roomID = ''9999'', input_nationalID = ''1234567890123'',
          input_secret = padStart 6 CHR ''0''
            (toString (generateTOTP now (staffID @ ''9999'' @ ''1234567890123'') 300))\<rparr>"
  using assms by (simp add: getDoorLockInput_def Let_def)

subsection \<open>The counter buffer and the truncation, against the reference\<close>

lemma replicate_numeral_unfold: "replicate (numeral k) x = x # replicate (pred_numeral k) x"
  by (simp add: numeral_eq_Suc)

lemma drop_bit_int32_range:
  fixes c :: int
  assumes "0 \<le> c" "c < 2147483648"
  shows "0 \<le> drop_bit k c" "drop_bit k c < 2147483648"
proof -
  show "0 \<le> drop_bit k c" using assms by simp
  have "c div 2 ^ k \<le> c"
    using assms(1) int_div_le_self [of c "2 ^ k"] by (cases "c = 0") simp_all
  with assms show "drop_bit k c < 2147483648"
    by (simp add: drop_bit_eq_div)
qed

lemma js_sar_nonneg: "0 \<le> c \<Longrightarrow> c < 2147483648 \<Longrightarrow> js_sar c 8 = drop_bit 8 c"
  by (simp add: js_sar_def ToInt32_id)

lemma and_255: "(c::int) AND 255 = take_bit 8 c"
  by (simp add: take_bit_eq_mask mask_eq_exp_minus_1)

lemma js_and_255_nonneg: "0 \<le> c \<Longrightarrow> c < 2147483648 \<Longrightarrow> js_and c 255 = take_bit 8 c"
  by (simp add: js_and_def ToInt32_id and_255)

lemma counterBuffer_big_endian:
  assumes "0 \<le> counter" "counter < 2147483648"
  shows "counterBuffer counter = be_bytes8 counter"
  using assms
  by (simp add: counterBuffer_def fillCounter.simps replicate_numeral_unfold js_sar_nonneg
      js_and_255_nonneg drop_bit_int32_range be_bytes8_def byte_of_def)

lemma sha1_out_length: "length (sha1_out s) = 20"
  by (cases s) (simp add: w32_bytes_def)

lemma createHmac_sha1_length: "length (createHmac_sha1 key msg) = 20"
  by (simp add: createHmac_sha1_def Let_def sha1_def sha1_out_length)

lemma and_127: "(c::int) AND 127 = c mod 128"
  by (simp add: take_bit_eq_mod flip: take_bit_eq_mask [of 7 c, simplified mask_eq_exp_minus_1, simplified])

lemma and_15: "(c::int) AND 15 = c mod 16"
  by (simp add: take_bit_eq_mod flip: take_bit_eq_mask [of 4 c, simplified mask_eq_exp_minus_1, simplified])

lemma or_bytes_sum:
  fixes a b c d :: int
  assumes "0 \<le> a" "a < 128" "0 \<le> b" "b < 256" "0 \<le> c" "c < 256" "0 \<le> d" "d < 256"
  shows "((a * 2 ^ 24 OR b * 2 ^ 16) OR c * 2 ^ 8) OR d = a * 2 ^ 24 + b * 2 ^ 16 + c * 2 ^ 8 + d"
proof -
  have a: "a = take_bit 7 a" and b: "b = take_bit 8 b" and c: "c = take_bit 8 c"
    and d: "d = take_bit 8 d"
    using assms by (simp_all add: take_bit_int_eq_self)
  define A where "A = push_bit 24 (take_bit 7 a)"
  define B where "B = push_bit 16 (take_bit 8 b)"
  define C where "C = push_bit 8 (take_bit 8 c)"
  define D where "D = take_bit 8 d"
  have 1: "A AND B = 0"
    by (auto simp: A_def B_def bit_eq_iff bit_simps)
  have 2: "(A OR B) AND C = 0"
    by (auto simp: A_def B_def C_def bit_eq_iff bit_simps)
  have 3: "((A OR B) OR C) AND D = 0"
    by (auto simp: A_def B_def C_def D_def bit_eq_iff bit_simps)
  have "((A OR B) OR C) OR D = ((A OR B) OR C) + D"
    using 3 by (simp add: disjunctive_add_eq_or)
  also have "\<dots> = (A OR B) + C + D"
    using 2 by (simp add: disjunctive_add_eq_or)
  also have "\<dots> = A + B + C + D"
    using 1 by (simp add: disjunctive_add_eq_or)
  finally have "((A OR B) OR C) OR D = A + B + C + D" .
  moreover have "A = a * 2 ^ 24" "B = b * 2 ^ 16" "C = c * 2 ^ 8" "D = d"
    using a b c d by (simp_all add: A_def B_def C_def D_def push_bit_eq_mult)
  ultimately show ?thesis by simp
qed

lemma big_endian_31_bits:
  fixes b0 b1 b2 b3 :: int
  assumes "0 \<le> b0" "0 \<le> b1" "b1 < 256" "0 \<le> b2" "b2 < 256" "0 \<le> b3" "b3 < 256"
  shows "(((b0 * 256 + b1) * 256 + b2) * 256 + b3) mod 2 ^ 31 =
         (b0 mod 128) * 2 ^ 24 + b1 * 2 ^ 16 + b2 * 2 ^ 8 + b3"
proof -
  define r where "r = b0 mod 128"
  define q where "q = b0 div 128"
  have b0: "b0 = q * 128 + r"
    by (simp add: r_def q_def)
  have r: "0 \<le> r" "r < 128"
    by (simp_all add: r_def)
  let ?x = "r * 2 ^ 24 + b1 * 2 ^ 16 + b2 * 2 ^ 8 + b3"
  have x: "0 \<le> ?x" "?x < 2 ^ 31"
    using r assms by simp_all
  have "((b0 * 256 + b1) * 256 + b2) * 256 + b3 = ?x + q * 2 ^ 31"
    by (simp add: b0 algebra_simps)
  then have "(((b0 * 256 + b1) * 256 + b2) * 256 + b3) mod 2 ^ 31 = ?x mod 2 ^ 31"
    by (simp only: mod_mult_self1)
  also have "\<dots> = ?x"
    using x by (simp only: mod_pos_pos_trivial)
  finally show ?thesis
    by (simp add: r_def)
qed

lemma dynamicTruncationFn_big_endian:
  assumes "length h = 20"
  shows "dynamicTruncationFn h =
     (let offset = unat (h ! 19) mod 16;
          p = ((uint (h ! offset) * 256 + uint (h ! (offset + 1))) * 256
                 + uint (h ! (offset + 2))) * 256 + uint (h ! (offset + 3))
      in p mod 2 ^ 31)"
proof -
  define off where "off = unat (h ! 19) mod 16"
  have off: "off < 16" by (simp add: off_def)
  have last: "js_num (buffer_at h (int (length h) - 1)) = uint (h ! 19)"
    using assms by (simp add: buffer_at_def js_num_def)
  have "js_and (uint (h ! 19)) 0xf = uint (h ! 19) mod 16"
    using uint_lt2p [of "h ! 19"] by (simp add: js_and_def ToInt32_id and_15)
  also have "\<dots> = int off"
    by (simp add: off_def zmod_int)
  finally have o: "js_and (js_num (buffer_at h (int (length h) - 1))) 0xf = int off"
    by (simp add: last)
  have rd: "js_num (buffer_at h (int off + int k)) = uint (h ! (off + k))" if "k < 4" for k
    using assms off that by (simp add: buffer_at_def js_num_def nat_add_distrib)
  have rd0: "js_num (buffer_at h (int off)) = uint (h ! off)"
    using rd [of 0] by simp
  have rng: "0 \<le> uint (h ! i)" "uint (h ! i) < 256" "uint (h ! i) < 2147483648" for i
    using uint_lt2p [of "h ! i"] by simp_all
  have m7: "js_and (uint (h ! i)) 0x7f = uint (h ! i) mod 128" for i
    using rng [of i] by (simp add: js_and_def ToInt32_id and_127)
  have m8: "js_and (uint (h ! i)) 0xff = uint (h ! i)" for i
    using rng [of i] by (simp add: js_and_def ToInt32_id and_255 take_bit_int_eq_self)
  define a where "a = uint (h ! off) mod 128"
  define b where "b = uint (h ! (off + 1))"
  define c where "c = uint (h ! (off + 2))"
  define d where "d = uint (h ! (off + 3))"
  have ra: "0 \<le> a" "a < 128" and rb: "0 \<le> b" "b < 256"
    and rc: "0 \<le> c" "c < 256" and rd': "0 \<le> d" "d < 256"
    using rng by (simp_all add: a_def b_def c_def d_def)
  have sa: "js_shl a 24 = a * 2 ^ 24" and sb: "js_shl b 16 = b * 2 ^ 16"
    and sc: "js_shl c 8 = c * 2 ^ 8"
    using ra rb rc by (simp_all add: js_shl_small)
  have A: "0 \<le> a * 2 ^ 24" "a * 2 ^ 24 < 2147483648"
    and B: "0 \<le> b * 2 ^ 16" "b * 2 ^ 16 < 2147483648"
    and C: "0 \<le> c * 2 ^ 8" "c * 2 ^ 8 < 2147483648"
    and D: "0 \<le> d" "d < 2147483648"
    using ra rb rc rd' by simp_all
  note AB = js_or_small [OF A B]
  note ABC = js_or_small [OF AB(2,3) C]
  note ABCD = js_or_small [OF ABC(2,3) D]
  have "dynamicTruncationFn h =
      js_or (js_or (js_or (js_shl a 24) (js_shl b 16)) (js_shl c 8)) d"
    using rd [of 1] rd [of 2] rd [of 3]
    by (simp add: dynamicTruncationFn_def Let_def o rd0 m7 m8 a_def b_def c_def d_def)
  also have "\<dots> = js_or (js_or (js_or (a * 2 ^ 24) (b * 2 ^ 16)) (c * 2 ^ 8)) d"
    by (simp only: sa sb sc)
  also have "\<dots> = js_or (js_or (a * 2 ^ 24) (b * 2 ^ 16)) (c * 2 ^ 8) OR d"
    by (rule ABCD(1))
  also have "\<dots> = (js_or (a * 2 ^ 24) (b * 2 ^ 16) OR c * 2 ^ 8) OR d"
    by (simp only: ABC(1))
  also have "\<dots> = ((a * 2 ^ 24 OR b * 2 ^ 16) OR c * 2 ^ 8) OR d"
    by (simp only: AB(1))
  also have "\<dots> = a * 2 ^ 24 + b * 2 ^ 16 + c * 2 ^ 8 + d"
    using ra rb rc rd' by (rule or_bytes_sum)
  also have "\<dots> = (((uint (h ! off) * 256 + b) * 256 + c) * 256 + d) mod 2 ^ 31"
    unfolding a_def using rng [of off] rb rc rd'
    by (simp only: big_endian_31_bits)
  finally show ?thesis
    by (simp add: Let_def off_def b_def c_def d_def)
qed

text \<open>
  For a counter from 0 up to, not including, 2147483648 the code of \<open>generateHOTP\<close> is
  the reference code under the decoded key.
\<close>

lemma generateHOTP_agrees_with_reference:
  assumes "0 \<le> counter" "counter < 2147483648"
  shows "generateHOTP secret counter = hotp_reference (decodedSecret secret) counter"
proof -
  define digest where "digest = createHmac_sha1 (decodedSecret secret) (be_bytes8 counter)"
  have l: "length digest = 20"
    by (simp add: digest_def createHmac_sha1_length)
  have r: "0 \<le> dynamicTruncationFn digest"
    using dynamicTruncationFn_range [of digest] by simp
  have "generateHOTP secret counter = js_rem (dynamicTruncationFn digest) (10 ^ 6)"
    by (simp add: generateHOTP_def Let_def counterBuffer_big_endian [OF assms] digest_def)
  also have "\<dots> = dynamicTruncationFn digest mod 1000000"
    using r by (cases "dynamicTruncationFn digest = 0") (simp_all add: js_rem_def)
  also have "\<dots> = hotp_reference (decodedSecret secret) counter"
    by (simp only: dynamicTruncationFn_big_endian [OF l] hotp_reference_def Let_def
        flip: digest_def)
  finally show ?thesis .
qed

subsection \<open>The length of the decoded key\<close>

lemma b64_bytes_length: "4 * length (b64_bytes v) \<le> 3 * length v"
  by (induction v rule: b64_bytes.induct) auto

lemma map_filter_length: "length (List.map_filter f xs) \<le> length xs"
  by (induction xs) (auto simp: List.map_filter_simps split: option.splits)

lemma Buffer_from_base64_length: "4 * length (Buffer_from_base64 s) \<le> 3 * length s"
proof -
  let ?v = "List.map_filter b64_value (takeWhile (\<lambda>c. c \<noteq> CHR ''='') s)"
  have "length ?v \<le> length (takeWhile (\<lambda>c. c \<noteq> CHR ''='') s)"
    by (rule map_filter_length)
  also have "\<dots> \<le> length s"
    by (rule length_takeWhile_le)
  finally have "3 * length ?v \<le> 3 * length s" by simp
  with b64_bytes_length [of ?v] show ?thesis
    by (simp add: Buffer_from_base64_def)
qed

lemma decodedSecret_not_utf8: "s \<noteq> [] \<Longrightarrow> decodedSecret s \<noteq> utf8 s"
proof
  assume n: "s \<noteq> []" and e: "decodedSecret s = utf8 s"
  from e have "length (Buffer_from_base64 s) = length s"
    by (simp add: decodedSecret_def utf8_def)
  with Buffer_from_base64_length [of s] have "length s = 0" by simp
  with n show False by simp
qed

subsection \<open>SHA-1 and HMAC on concrete blocks\<close>

text \<open>
  Each compression is evaluated on its own; a digest is then assembled from the
  compressions of its blocks. The first HMAC is the test vector of RFC 4226, Appendix D
  (secret \<open>12345678901234567890\<close>, count 0, code 755224); the others use the key that
  \<open>generateHOTP\<close> derives for staff \<open>s1\<close>.
\<close>

lemma sha1_rfc4226_ipad:
  "sha1_block (1732584193, 4023233417, 2562383102, 271733878, 3285377520)
     [7, 4, 5, 2, 3, 0, 1, 14, 15, 6, 7, 4, 5, 2, 3, 0,
      1, 14, 15, 6, 54, 54, 54, 54, 54, 54, 54, 54, 54, 54, 54, 54,
      54, 54, 54, 54, 54, 54, 54, 54, 54, 54, 54, 54, 54, 54, 54, 54,
      54, 54, 54, 54, 54, 54, 54, 54, 54, 54, 54, 54, 54, 54, 54, 54] =
   (3418885260, 4120502956, 3183003698, 3667247555, 4167577637)"
  by (simp add: sha1_block_def sha1_rounds.simps sha1_next_w_def add32_def rotl32_def
      sha1_f_def sha1_k_def)

lemma sha1_rfc4226_count0_inner:
  "sha1_block (3418885260, 4120502956, 3183003698, 3667247555, 4167577637)
     [0, 0, 0, 0, 0, 0, 0, 0, 128, 0, 0, 0, 0, 0, 0, 0,
      0, 0, 0, 0, 0, 0, 0, 0, 0, 0, 0, 0, 0, 0, 0, 0,
      0, 0, 0, 0, 0, 0, 0, 0, 0, 0, 0, 0, 0, 0, 0, 0,
      0, 0, 0, 0, 0, 0, 0, 0, 0, 0, 0, 0, 0, 0, 2, 64] =
   (143776190, 163256007, 3362926067, 1759011664, 1719552414)"
  by (simp add: sha1_block_def sha1_rounds.simps sha1_next_w_def add32_def rotl32_def
      sha1_f_def sha1_k_def)

lemma sha1_rfc4226_opad:
  "sha1_block (1732584193, 4023233417, 2562383102, 271733878, 3285377520)
     [109, 110, 111, 104, 105, 106, 107, 100, 101, 108, 109, 110, 111, 104, 105, 106,
      107, 100, 101, 108, 92, 92, 92, 92, 92, 92, 92, 92, 92, 92, 92, 92,
      92, 92, 92, 92, 92, 92, 92, 92, 92, 92, 92, 92, 92, 92, 92, 92,
      92, 92, 92, 92, 92, 92, 92, 92, 92, 92, 92, 92, 92, 92, 92, 92] =
   (2562571725, 1491106814, 2908544490, 985678603, 4262488101)"
  by (simp add: sha1_block_def sha1_rounds.simps sha1_next_w_def add32_def rotl32_def
      sha1_f_def sha1_k_def)

lemma sha1_rfc4226_count0_outer:
  "sha1_block (2562571725, 1491106814, 2908544490, 985678603, 4262488101)
     [8, 145, 217, 190, 9, 187, 22, 199, 200, 114, 45, 243, 104, 216, 99, 80,
      102, 126, 73, 158, 128, 0, 0, 0, 0, 0, 0, 0, 0, 0, 0, 0,
      0, 0, 0, 0, 0, 0, 0, 0, 0, 0, 0, 0, 0, 0, 0, 0,
      0, 0, 0, 0, 0, 0, 0, 0, 0, 0, 0, 0, 0, 0, 2, 160] =
   (3432238872, 1351455891, 1281668701, 2343003775, 3083723952)"
  by (simp add: sha1_block_def sha1_rounds.simps sha1_next_w_def add32_def rotl32_def
      sha1_f_def sha1_k_def)

lemma sha1_rfc4226_count0_inner_digest:
  "sha1
     [7, 4, 5, 2, 3, 0, 1, 14, 15, 6, 7, 4, 5, 2, 3, 0,
      1, 14, 15, 6, 54, 54, 54, 54, 54, 54, 54, 54, 54, 54, 54, 54,
      54, 54, 54, 54, 54, 54, 54, 54, 54, 54, 54, 54, 54, 54, 54, 54,
      54, 54, 54, 54, 54, 54, 54, 54, 54, 54, 54, 54, 54, 54, 54, 54,
      0, 0, 0, 0, 0, 0, 0, 0] =
   [8, 145, 217, 190, 9, 187, 22, 199, 200, 114, 45, 243, 104, 216, 99, 80,
      102, 126, 73, 158]"
  by (simp add: sha1_def sha1_init_def sha1_pad_def be_bytes8_def byte_of_def w32_bytes_def
      sha1_blocks.simps replicate_numeral_unfold sha1_rfc4226_ipad sha1_rfc4226_count0_inner)

lemma sha1_rfc4226_count0_outer_digest:
  "sha1
     [109, 110, 111, 104, 105, 106, 107, 100, 101, 108, 109, 110, 111, 104, 105, 106,
      107, 100, 101, 108, 92, 92, 92, 92, 92, 92, 92, 92, 92, 92, 92, 92,
      92, 92, 92, 92, 92, 92, 92, 92, 92, 92, 92, 92, 92, 92, 92, 92,
      92, 92, 92, 92, 92, 92, 92, 92, 92, 92, 92, 92, 92, 92, 92, 92,
      8, 145, 217, 190, 9, 187, 22, 199, 200, 114, 45, 243, 104, 216, 99, 80,
      102, 126, 73, 158] =
   [204, 147, 207, 24, 80, 141, 148, 147, 76, 100, 182, 93, 139, 167, 102, 127,
      183, 205, 228, 176]"
  by (simp add: sha1_def sha1_init_def sha1_pad_def be_bytes8_def byte_of_def w32_bytes_def
      sha1_blocks.simps replicate_numeral_unfold sha1_rfc4226_opad sha1_rfc4226_count0_outer)

lemma hmac_rfc4226_count0:
  "createHmac_sha1
     [49, 50, 51, 52, 53, 54, 55, 56, 57, 48, 49, 50, 51, 52, 53, 54,
      55, 56, 57, 48]
     [0, 0, 0, 0, 0, 0, 0, 0] =
   [204, 147, 207, 24, 80, 141, 148, 147, 76, 100, 182, 93, 139, 167, 102, 127,
      183, 205, 228, 176]"
  by (simp add: createHmac_sha1_def Let_def replicate_numeral_unfold
      sha1_rfc4226_count0_inner_digest sha1_rfc4226_count0_outer_digest)

lemma sha1_s1_ipad:
  "sha1_block (1732584193, 4023233417, 2562383102, 271733878, 3285377520)
     [133, 105, 75, 193, 235, 64, 233, 184, 76, 217, 249, 66, 225, 91, 54, 54,
      54, 54, 54, 54, 54, 54, 54, 54, 54, 54, 54, 54, 54, 54, 54, 54,
      54, 54, 54, 54, 54, 54, 54, 54, 54, 54, 54, 54, 54, 54, 54, 54,
      54, 54, 54, 54, 54, 54, 54, 54, 54, 54, 54, 54, 54, 54, 54, 54] =
   (1364944732, 1004960711, 1499594404, 266443540, 3874189287)"
  by (simp add: sha1_block_def sha1_rounds.simps sha1_next_w_def add32_def rotl32_def
      sha1_f_def sha1_k_def)

lemma sha1_s1_counter_code_inner:
  "sha1_block (1364944732, 1004960711, 1499594404, 266443540, 3874189287)
     [255, 255, 255, 255, 128, 0, 0, 0, 128, 0, 0, 0, 0, 0, 0, 0,
      0, 0, 0, 0, 0, 0, 0, 0, 0, 0, 0, 0, 0, 0, 0, 0,
      0, 0, 0, 0, 0, 0, 0, 0, 0, 0, 0, 0, 0, 0, 0, 0,
      0, 0, 0, 0, 0, 0, 0, 0, 0, 0, 0, 0, 0, 0, 2, 64] =
   (987545451, 2922269500, 507194606, 2395712500, 3026186850)"
  by (simp add: sha1_block_def sha1_rounds.simps sha1_next_w_def add32_def rotl32_def
      sha1_f_def sha1_k_def)

lemma sha1_s1_opad:
  "sha1_block (1732584193, 4023233417, 2562383102, 271733878, 3285377520)
     [239, 3, 33, 171, 129, 42, 131, 210, 38, 179, 147, 40, 139, 49, 92, 92,
      92, 92, 92, 92, 92, 92, 92, 92, 92, 92, 92, 92, 92, 92, 92, 92,
      92, 92, 92, 92, 92, 92, 92, 92, 92, 92, 92, 92, 92, 92, 92, 92,
      92, 92, 92, 92, 92, 92, 92, 92, 92, 92, 92, 92, 92, 92, 92, 92] =
   (3208563171, 335664902, 2948460399, 1385056666, 372952636)"
  by (simp add: sha1_block_def sha1_rounds.simps sha1_next_w_def add32_def rotl32_def
      sha1_f_def sha1_k_def)

lemma sha1_s1_counter_code_outer:
  "sha1_block (3208563171, 335664902, 2948460399, 1385056666, 372952636)
     [58, 220, 191, 107, 174, 46, 75, 60, 30, 59, 44, 238, 142, 203, 171, 244,
      180, 95, 242, 98, 128, 0, 0, 0, 0, 0, 0, 0, 0, 0, 0, 0,
      0, 0, 0, 0, 0, 0, 0, 0, 0, 0, 0, 0, 0, 0, 0, 0,
      0, 0, 0, 0, 0, 0, 0, 0, 0, 0, 0, 0, 0, 0, 2, 160] =
   (2088308832, 1853777756, 2818309722, 3592510010, 2160510824)"
  by (simp add: sha1_block_def sha1_rounds.simps sha1_next_w_def add32_def rotl32_def
      sha1_f_def sha1_k_def)

lemma sha1_s1_counter_code_inner_digest:
  "sha1
     [133, 105, 75, 193, 235, 64, 233, 184, 76, 217, 249, 66, 225, 91, 54, 54,
      54, 54, 54, 54, 54, 54, 54, 54, 54, 54, 54, 54, 54, 54, 54, 54,
      54, 54, 54, 54, 54, 54, 54, 54, 54, 54, 54, 54, 54, 54, 54, 54,
      54, 54, 54, 54, 54, 54, 54, 54, 54, 54, 54, 54, 54, 54, 54, 54,
      255, 255, 255, 255, 128, 0, 0, 0] =
   [58, 220, 191, 107, 174, 46, 75, 60, 30, 59, 44, 238, 142, 203, 171, 244,
      180, 95, 242, 98]"
  by (simp add: sha1_def sha1_init_def sha1_pad_def be_bytes8_def byte_of_def w32_bytes_def
      sha1_blocks.simps replicate_numeral_unfold sha1_s1_ipad sha1_s1_counter_code_inner)

lemma sha1_s1_counter_code_outer_digest:
  "sha1
     [239, 3, 33, 171, 129, 42, 131, 210, 38, 179, 147, 40, 139, 49, 92, 92,
      92, 92, 92, 92, 92, 92, 92, 92, 92, 92, 92, 92, 92, 92, 92, 92,
      92, 92, 92, 92, 92, 92, 92, 92, 92, 92, 92, 92, 92, 92, 92, 92,
      92, 92, 92, 92, 92, 92, 92, 92, 92, 92, 92, 92, 92, 92, 92, 92,
      58, 220, 191, 107, 174, 46, 75, 60, 30, 59, 44, 238, 142, 203, 171, 244,
      180, 95, 242, 98] =
   [124, 121, 16, 96, 110, 126, 103, 92, 167, 251, 254, 90, 214, 33, 90, 58,
      128, 198, 199, 104]"
  by (simp add: sha1_def sha1_init_def sha1_pad_def be_bytes8_def byte_of_def w32_bytes_def
      sha1_blocks.simps replicate_numeral_unfold sha1_s1_opad sha1_s1_counter_code_outer)

lemma hmac_s1_counter_code:
  "createHmac_sha1
     [179, 95, 125, 247, 221, 118, 223, 142, 122, 239, 207, 116, 215, 109]
     [255, 255, 255, 255, 128, 0, 0, 0] =
   [124, 121, 16, 96, 110, 126, 103, 92, 167, 251, 254, 90, 214, 33, 90, 58,
      128, 198, 199, 104]"
  by (simp add: createHmac_sha1_def Let_def replicate_numeral_unfold
      sha1_s1_counter_code_inner_digest sha1_s1_counter_code_outer_digest)

lemma sha1_s1_counter_reference_inner:
  "sha1_block (1364944732, 1004960711, 1499594404, 266443540, 3874189287)
     [0, 0, 0, 0, 128, 0, 0, 0, 128, 0, 0, 0, 0, 0, 0, 0,
      0, 0, 0, 0, 0, 0, 0, 0, 0, 0, 0, 0, 0, 0, 0, 0,
      0, 0, 0, 0, 0, 0, 0, 0, 0, 0, 0, 0, 0, 0, 0, 0,
      0, 0, 0, 0, 0, 0, 0, 0, 0, 0, 0, 0, 0, 0, 2, 64] =
   (2016767902, 3581463589, 3145095699, 3931853653, 2931584601)"
  by (simp add: sha1_block_def sha1_rounds.simps sha1_next_w_def add32_def rotl32_def
      sha1_f_def sha1_k_def)

lemma sha1_s1_counter_reference_outer:
  "sha1_block (3208563171, 335664902, 2948460399, 1385056666, 372952636)
     [120, 53, 111, 158, 213, 120, 204, 37, 187, 118, 90, 19, 234, 91, 83, 85,
      174, 188, 110, 89, 128, 0, 0, 0, 0, 0, 0, 0, 0, 0, 0, 0,
      0, 0, 0, 0, 0, 0, 0, 0, 0, 0, 0, 0, 0, 0, 0, 0,
      0, 0, 0, 0, 0, 0, 0, 0, 0, 0, 0, 0, 0, 0, 2, 160] =
   (3727015277, 4015539650, 258919660, 3519236008, 1489606380)"
  by (simp add: sha1_block_def sha1_rounds.simps sha1_next_w_def add32_def rotl32_def
      sha1_f_def sha1_k_def)

lemma sha1_s1_counter_reference_inner_digest:
  "sha1
     [133, 105, 75, 193, 235, 64, 233, 184, 76, 217, 249, 66, 225, 91, 54, 54,
      54, 54, 54, 54, 54, 54, 54, 54, 54, 54, 54, 54, 54, 54, 54, 54,
      54, 54, 54, 54, 54, 54, 54, 54, 54, 54, 54, 54, 54, 54, 54, 54,
      54, 54, 54, 54, 54, 54, 54, 54, 54, 54, 54, 54, 54, 54, 54, 54,
      0, 0, 0, 0, 128, 0, 0, 0] =
   [120, 53, 111, 158, 213, 120, 204, 37, 187, 118, 90, 19, 234, 91, 83, 85,
      174, 188, 110, 89]"
  by (simp add: sha1_def sha1_init_def sha1_pad_def be_bytes8_def byte_of_def w32_bytes_def
      sha1_blocks.simps replicate_numeral_unfold sha1_s1_ipad sha1_s1_counter_reference_inner)

lemma sha1_s1_counter_reference_outer_digest:
  "sha1
     [239, 3, 33, 171, 129, 42, 131, 210, 38, 179, 147, 40, 139, 49, 92, 92,
      92, 92, 92, 92, 92, 92, 92, 92, 92, 92, 92, 92, 92, 92, 92, 92,
      92, 92, 92, 92, 92, 92, 92, 92, 92, 92, 92, 92, 92, 92, 92, 92,
      92, 92, 92, 92, 92, 92, 92, 92, 92, 92, 92, 92, 92, 92, 92, 92,
      120, 53, 111, 158, 213, 120, 204, 37, 187, 118, 90, 19, 234, 91, 83, 85,
      174, 188, 110, 89] =
   [222, 37, 189, 109, 239, 88, 69, 194, 15, 110, 204, 236, 209, 195, 71, 168,
      88, 201, 150, 236]"
  by (simp add: sha1_def sha1_init_def sha1_pad_def be_bytes8_def byte_of_def w32_bytes_def
      sha1_blocks.simps replicate_numeral_unfold sha1_s1_opad sha1_s1_counter_reference_outer)

lemma hmac_s1_counter_reference:
  "createHmac_sha1
     [179, 95, 125, 247, 221, 118, 223, 142, 122, 239, 207, 116, 215, 109]
     [0, 0, 0, 0, 128, 0, 0, 0] =
   [222, 37, 189, 109, 239, 88, 69, 194, 15, 110, 204, 236, 209, 195, 71, 168,
      88, 201, 150, 236]"
  by (simp add: createHmac_sha1_def Let_def replicate_numeral_unfold
      sha1_s1_counter_reference_inner_digest sha1_s1_counter_reference_outer_digest)

lemma sha1_s1_now_inner:
  "sha1_block (1364944732, 1004960711, 1499594404, 266443540, 3874189287)
     [0, 0, 0, 0, 95, 102, 109, 245, 128, 0, 0, 0, 0, 0, 0, 0,
      0, 0, 0, 0, 0, 0, 0, 0, 0, 0, 0, 0, 0, 0, 0, 0,
      0, 0, 0, 0, 0, 0, 0, 0, 0, 0, 0, 0, 0, 0, 0, 0,
      0, 0, 0, 0, 0, 0, 0, 0, 0, 0, 0, 0, 0, 0, 2, 64] =
   (1479525055, 3788967905, 2400385516, 1272900947, 113093398)"
  by (simp add: sha1_block_def sha1_rounds.simps sha1_next_w_def add32_def rotl32_def
      sha1_f_def sha1_k_def)

lemma sha1_s1_now_outer:
  "sha1_block (3208563171, 335664902, 2948460399, 1385056666, 372952636)
     [88, 47, 194, 191, 225, 215, 15, 225, 143, 18, 249, 236, 75, 222, 237, 83,
      6, 189, 171, 22, 128, 0, 0, 0, 0, 0, 0, 0, 0, 0, 0, 0,
      0, 0, 0, 0, 0, 0, 0, 0, 0, 0, 0, 0, 0, 0, 0, 0,
      0, 0, 0, 0, 0, 0, 0, 0, 0, 0, 0, 0, 0, 0, 2, 160] =
   (325421398, 3478883575, 940556029, 50657836, 1765414014)"
  by (simp add: sha1_block_def sha1_rounds.simps sha1_next_w_def add32_def rotl32_def
      sha1_f_def sha1_k_def)

lemma sha1_s1_now_inner_digest:
  "sha1
     [133, 105, 75, 193, 235, 64, 233, 184, 76, 217, 249, 66, 225, 91, 54, 54,
      54, 54, 54, 54, 54, 54, 54, 54, 54, 54, 54, 54, 54, 54, 54, 54,
      54, 54, 54, 54, 54, 54, 54, 54, 54, 54, 54, 54, 54, 54, 54, 54,
      54, 54, 54, 54, 54, 54, 54, 54, 54, 54, 54, 54, 54, 54, 54, 54,
      0, 0, 0, 0, 95, 102, 109, 245] =
   [88, 47, 194, 191, 225, 215, 15, 225, 143, 18, 249, 236, 75, 222, 237, 83,
      6, 189, 171, 22]"
  by (simp add: sha1_def sha1_init_def sha1_pad_def be_bytes8_def byte_of_def w32_bytes_def
      sha1_blocks.simps replicate_numeral_unfold sha1_s1_ipad sha1_s1_now_inner)

lemma sha1_s1_now_outer_digest:
  "sha1
     [239, 3, 33, 171, 129, 42, 131, 210, 38, 179, 147, 40, 139, 49, 92, 92,
      92, 92, 92, 92, 92, 92, 92, 92, 92, 92, 92, 92, 92, 92, 92, 92,
      92, 92, 92, 92, 92, 92, 92, 92, 92, 92, 92, 92, 92, 92, 92, 92,
      92, 92, 92, 92, 92, 92, 92, 92, 92, 92, 92, 92, 92, 92, 92, 92,
      88, 47, 194, 191, 225, 215, 15, 225, 143, 18, 249, 236, 75, 222, 237, 83,
      6, 189, 171, 22] =
   [19, 101, 137, 86, 207, 91, 140, 247, 56, 15, 190, 253, 3, 4, 250, 44,
      105, 58, 20, 126]"
  by (simp add: sha1_def sha1_init_def sha1_pad_def be_bytes8_def byte_of_def w32_bytes_def
      sha1_blocks.simps replicate_numeral_unfold sha1_s1_opad sha1_s1_now_outer)

lemma hmac_s1_now:
  "createHmac_sha1
     [179, 95, 125, 247, 221, 118, 223, 142, 122, 239, 207, 116, 215, 109]
     [0, 0, 0, 0, 95, 102, 109, 245] =
   [19, 101, 137, 86, 207, 91, 140, 247, 56, 15, 190, 253, 3, 4, 250, 44,
      105, 58, 20, 126]"
  by (simp add: createHmac_sha1_def Let_def replicate_numeral_unfold
      sha1_s1_now_inner_digest sha1_s1_now_outer_digest)

lemma sha1_s1_later_inner:
  "sha1_block (1364944732, 1004960711, 1499594404, 266443540, 3874189287)
     [0, 0, 0, 0, 95, 102, 111, 33, 128, 0, 0, 0, 0, 0, 0, 0,
      0, 0, 0, 0, 0, 0, 0, 0, 0, 0, 0, 0, 0, 0, 0, 0,
      0, 0, 0, 0, 0, 0, 0, 0, 0, 0, 0, 0, 0, 0, 0, 0,
      0, 0, 0, 0, 0, 0, 0, 0, 0, 0, 0, 0, 0, 0, 2, 64] =
   (3882789193, 2662365540, 2801519272, 2930011795, 3923299260)"
  by (simp add: sha1_block_def sha1_rounds.simps sha1_next_w_def add32_def rotl32_def
      sha1_f_def sha1_k_def)

lemma sha1_s1_later_outer:
  "sha1_block (3208563171, 335664902, 2948460399, 1385056666, 372952636)
     [231, 110, 169, 73, 158, 176, 121, 100, 166, 251, 202, 168, 174, 164, 110, 147,
      233, 216, 203, 188, 128, 0, 0, 0, 0, 0, 0, 0, 0, 0, 0, 0,
      0, 0, 0, 0, 0, 0, 0, 0, 0, 0, 0, 0, 0, 0, 0, 0,
      0, 0, 0, 0, 0, 0, 0, 0, 0, 0, 0, 0, 0, 0, 2, 160] =
   (811192130, 1721612807, 2050054597, 1121373284, 1264735157)"
  by (simp add: sha1_block_def sha1_rounds.simps sha1_next_w_def add32_def rotl32_def
      sha1_f_def sha1_k_def)

lemma sha1_s1_later_inner_digest:
  "sha1
     [133, 105, 75, 193, 235, 64, 233, 184, 76, 217, 249, 66, 225, 91, 54, 54,
      54, 54, 54, 54, 54, 54, 54, 54, 54, 54, 54, 54, 54, 54, 54, 54,
      54, 54, 54, 54, 54, 54, 54, 54, 54, 54, 54, 54, 54, 54, 54, 54,
      54, 54, 54, 54, 54, 54, 54, 54, 54, 54, 54, 54, 54, 54, 54, 54,
      0, 0, 0, 0, 95, 102, 111, 33] =
   [231, 110, 169, 73, 158, 176, 121, 100, 166, 251, 202, 168, 174, 164, 110, 147,
      233, 216, 203, 188]"
  by (simp add: sha1_def sha1_init_def sha1_pad_def be_bytes8_def byte_of_def w32_bytes_def
      sha1_blocks.simps replicate_numeral_unfold sha1_s1_ipad sha1_s1_later_inner)

lemma sha1_s1_later_outer_digest:
  "sha1
     [239, 3, 33, 171, 129, 42, 131, 210, 38, 179, 147, 40, 139, 49, 92, 92,
      92, 92, 92, 92, 92, 92, 92, 92, 92, 92, 92, 92, 92, 92, 92, 92,
      92, 92, 92, 92, 92, 92, 92, 92, 92, 92, 92, 92, 92, 92, 92, 92,
      92, 92, 92, 92, 92, 92, 92, 92, 92, 92, 92, 92, 92, 92, 92, 92,
      231, 110, 169, 73, 158, 176, 121, 100, 166, 251, 202, 168, 174, 164, 110, 147,
      233, 216, 203, 188] =
   [48, 89, 207, 66, 102, 157, 186, 7, 122, 49, 89, 197, 66, 214, 204, 100,
      75, 98, 83, 181]"
  by (simp add: sha1_def sha1_init_def sha1_pad_def be_bytes8_def byte_of_def w32_bytes_def
      sha1_blocks.simps replicate_numeral_unfold sha1_s1_opad sha1_s1_later_outer)

lemma hmac_s1_later:
  "createHmac_sha1
     [179, 95, 125, 247, 221, 118, 223, 142, 122, 239, 207, 116, 215, 109]
     [0, 0, 0, 0, 95, 102, 111, 33] =
   [48, 89, 207, 66, 102, 157, 186, 7, 122, 49, 89, 197, 66, 214, 204, 100,
      75, 98, 83, 181]"
  by (simp add: createHmac_sha1_def Let_def replicate_numeral_unfold
      sha1_s1_later_inner_digest sha1_s1_later_outer_digest)

lemma sha1_s1_later2_inner:
  "sha1_block (1364944732, 1004960711, 1499594404, 266443540, 3874189287)
     [0, 0, 0, 0, 95, 102, 112, 77, 128, 0, 0, 0, 0, 0, 0, 0,
      0, 0, 0, 0, 0, 0, 0, 0, 0, 0, 0, 0, 0, 0, 0, 0,
      0, 0, 0, 0, 0, 0, 0, 0, 0, 0, 0, 0, 0, 0, 0, 0,
      0, 0, 0, 0, 0, 0, 0, 0, 0, 0, 0, 0, 0, 0, 2, 64] =
   (1712236953, 76385629, 2713191832, 4079945803, 3581760350)"
  by (simp add: sha1_block_def sha1_rounds.simps sha1_next_w_def add32_def rotl32_def
      sha1_f_def sha1_k_def)

lemma sha1_s1_later2_outer:
  "sha1_block (3208563171, 335664902, 2948460399, 1385056666, 372952636)
     [102, 14, 169, 153, 4, 141, 141, 93, 161, 184, 5, 152, 243, 47, 8, 75,
      213, 125, 83, 94, 128, 0, 0, 0, 0, 0, 0, 0, 0, 0, 0, 0,
      0, 0, 0, 0, 0, 0, 0, 0, 0, 0, 0, 0, 0, 0, 0, 0,
      0, 0, 0, 0, 0, 0, 0, 0, 0, 0, 0, 0, 0, 0, 2, 160] =
   (3113674495, 1927849042, 3346091477, 3056556017, 974390067)"
  by (simp add: sha1_block_def sha1_rounds.simps sha1_next_w_def add32_def rotl32_def
      sha1_f_def sha1_k_def)

lemma sha1_s1_later2_inner_digest:
  "sha1
     [133, 105, 75, 193, 235, 64, 233, 184, 76, 217, 249, 66, 225, 91, 54, 54,
      54, 54, 54, 54, 54, 54, 54, 54, 54, 54, 54, 54, 54, 54, 54, 54,
      54, 54, 54, 54, 54, 54, 54, 54, 54, 54, 54, 54, 54, 54, 54, 54,
      54, 54, 54, 54, 54, 54, 54, 54, 54, 54, 54, 54, 54, 54, 54, 54,
      0, 0, 0, 0, 95, 102, 112, 77] =
   [102, 14, 169, 153, 4, 141, 141, 93, 161, 184, 5, 152, 243, 47, 8, 75,
      213, 125, 83, 94]"
  by (simp add: sha1_def sha1_init_def sha1_pad_def be_bytes8_def byte_of_def w32_bytes_def
      sha1_blocks.simps replicate_numeral_unfold sha1_s1_ipad sha1_s1_later2_inner)

lemma sha1_s1_later2_outer_digest:
  "sha1
     [239, 3, 33, 171, 129, 42, 131, 210, 38, 179, 147, 40, 139, 49, 92, 92,
      92, 92, 92, 92, 92, 92, 92, 92, 92, 92, 92, 92, 92, 92, 92, 92,
      92, 92, 92, 92, 92, 92, 92, 92, 92, 92, 92, 92, 92, 92, 92, 92,
      92, 92, 92, 92, 92, 92, 92, 92, 92, 92, 92, 92, 92, 92, 92, 92,
      102, 14, 169, 153, 4, 141, 141, 93, 161, 184, 5, 152, 243, 47, 8, 75,
      213, 125, 83, 94] =
   [185, 150, 230, 255, 114, 232, 164, 82, 199, 113, 77, 213, 182, 47, 87, 241,
      58, 20, 3, 51]"
  by (simp add: sha1_def sha1_init_def sha1_pad_def be_bytes8_def byte_of_def w32_bytes_def
      sha1_blocks.simps replicate_numeral_unfold sha1_s1_opad sha1_s1_later2_outer)

lemma hmac_s1_later2:
  "createHmac_sha1
     [179, 95, 125, 247, 221, 118, 223, 142, 122, 239, 207, 116, 215, 109]
     [0, 0, 0, 0, 95, 102, 112, 77] =
   [185, 150, 230, 255, 114, 232, 164, 82, 199, 113, 77, 213, 182, 47, 87, 241,
      58, 20, 3, 51]"
  by (simp add: createHmac_sha1_def Let_def replicate_numeral_unfold
      sha1_s1_later2_inner_digest sha1_s1_later2_outer_digest)

lemma hotp_reference_rfc4226:
  "hotp_reference (utf8 ''12345678901234567890'') 0 = 755224"
  by (simp add: hotp_reference_def utf8_def Let_def be_bytes8_def byte_of_def hmac_rfc4226_count0)

subsection \<open>Codes for staff \<open>s1\<close>\<close>

lemma decodedSecret_s1:
  "decodedSecret ''s199991234567890123'' =
     [179, 95, 125, 247, 221, 118, 223, 142, 122, 239, 207, 116, 215, 109]"
  by (simp add: decodedSecret_def Buffer_from_base64_def b64_value_def)

lemma counterBuffer_overflow: "counterBuffer 2147483648 = [255, 255, 255, 255, 128, 0, 0, 0]"
  by (simp add: counterBuffer_def fillCounter.simps js_sar_def js_and_def ToInt32_def
      replicate_numeral_unfold)

lemma dynamicTruncationFn_overflow:
  "dynamicTruncationFn
     [124, 121, 16, 96, 110, 126, 103, 92, 167, 251, 254, 90, 214, 33, 90, 58, 128, 198, 199, 104] = 670826074"
  by (simp add: dynamicTruncationFn_def Let_def buffer_at_def js_num_def js_and_def js_or_def
      js_shl_def ToInt32_def)

lemma generateHOTP_overflow: "generateHOTP ''s199991234567890123'' 2147483648 = 826074"
  by (simp add: generateHOTP_def Let_def decodedSecret_s1 counterBuffer_overflow hmac_s1_counter_code
      dynamicTruncationFn_overflow js_rem_def)

lemma counterBuffer_now: "counterBuffer 1600548341 = [0, 0, 0, 0, 95, 102, 109, 245]"
  by (simp add: counterBuffer_def fillCounter.simps js_sar_def js_and_def ToInt32_def
      replicate_numeral_unfold)

lemma dynamicTruncationFn_now:
  "dynamicTruncationFn
     [19, 101, 137, 86, 207, 91, 140, 247, 56, 15, 190, 253, 3, 4, 250, 44, 105, 58, 20, 126] = 2049730874"
  by (simp add: dynamicTruncationFn_def Let_def buffer_at_def js_num_def js_and_def js_or_def
      js_shl_def ToInt32_def)

lemma generateHOTP_now: "generateHOTP ''s199991234567890123'' 1600548341 = 730874"
  by (simp add: generateHOTP_def Let_def decodedSecret_s1 counterBuffer_now hmac_s1_now
      dynamicTruncationFn_now js_rem_def)

lemma counterBuffer_later: "counterBuffer 1600548641 = [0, 0, 0, 0, 95, 102, 111, 33]"
  by (simp add: counterBuffer_def fillCounter.simps js_sar_def js_and_def ToInt32_def
      replicate_numeral_unfold)

lemma dynamicTruncationFn_later:
  "dynamicTruncationFn
     [48, 89, 207, 66, 102, 157, 186, 7, 122, 49, 89, 197, 66, 214, 204, 100, 75, 98, 83, 181] = 498730874"
  by (simp add: dynamicTruncationFn_def Let_def buffer_at_def js_num_def js_and_def js_or_def
      js_shl_def ToInt32_def)

lemma generateHOTP_later: "generateHOTP ''s199991234567890123'' 1600548641 = 730874"
  by (simp add: generateHOTP_def Let_def decodedSecret_s1 counterBuffer_later hmac_s1_later
      dynamicTruncationFn_later js_rem_def)

lemma counterBuffer_later2: "counterBuffer 1600548941 = [0, 0, 0, 0, 95, 102, 112, 77]"
  by (simp add: counterBuffer_def fillCounter.simps js_sar_def js_and_def ToInt32_def
      replicate_numeral_unfold)

lemma dynamicTruncationFn_later2:
  "dynamicTruncationFn
     [185, 150, 230, 255, 114, 232, 164, 82, 199, 113, 77, 213, 182, 47, 87, 241, 58, 20, 3, 51] = 2138237092"
  by (simp add: dynamicTruncationFn_def Let_def buffer_at_def js_num_def js_and_def js_or_def
      js_shl_def ToInt32_def)

lemma generateHOTP_later2: "generateHOTP ''s199991234567890123'' 1600548941 = 237092"
  by (simp add: generateHOTP_def Let_def decodedSecret_s1 counterBuffer_later2 hmac_s1_later2
      dynamicTruncationFn_later2 js_rem_def)

lemma hotp_reference_overflow:
  "hotp_reference
     [179, 95, 125, 247, 221, 118, 223, 142, 122, 239, 207, 116, 215, 109] 2147483648 = 752360"
  by (simp add: hotp_reference_def Let_def be_bytes8_def byte_of_def hmac_s1_counter_reference)

lemma be_bytes8_overflow: "be_bytes8 2147483648 = [0, 0, 0, 0, 128, 0, 0, 0]"
  by (simp add: be_bytes8_def byte_of_def)

lemma generateTOTP_s1_issue:
  "generateTOTP 1600548341000 ''s199991234567890123'' 300 = 730874"
  by (simp add: generateTOTP_def generateHOTP_later)

lemma generateTOTP_s1_now:
  "generateTOTP 1600548341000 ''s199991234567890123'' 0 = 730874"
  by (simp add: generateTOTP_def generateHOTP_now)

lemma generateTOTP_s1_later_issue:
  "generateTOTP 1600548641000 ''s199991234567890123'' 300 = 237092"
  by (simp add: generateTOTP_def generateHOTP_later2)

lemma generateTOTP_s1_later_now:
  "generateTOTP 1600548641000 ''s199991234567890123'' 0 = 730874"
  by (simp add: generateTOTP_def generateHOTP_later)

lemma code_730874: "padStart 6 CHR ''0'' (toString 730874) = ''730874''"
  by (simp add: padStart_def toString_def digits.simps digit_char_def)

lemma code_237092: "padStart 6 CHR ''0'' (toString 237092) = ''237092''"
  by (simp add: padStart_def toString_def digits.simps digit_char_def)

lemma example_staff_s1: "example_staff ''s1'' = Some \<lparr>id_staff = ''s1'', password = ''hash''\<rparr>"
  by (simp add: example_staff_def)

lemma example_staff_nobody: "example_staff ''nobody'' = None"
  by (simp add: example_staff_def)

lemma issued_s1:
  "getDoorLockInput example_staff 1600548341000 ''s1'' =
     Inr \<lparr>input_userID = ''s1'', input_roomID = ''9999'',
          input_nationalID = ''1234567890123'', input_secret = ''730874''\<rparr>"
  using getDoorLockInput_found [of example_staff "''s1''" _ 1600548341000] example_staff_s1
  by (simp add: generateTOTP_s1_issue code_730874)

lemma issued_s1_later:
  "getDoorLockInput example_staff 1600548641000 ''s1'' =
     Inr \<lparr>input_userID = ''s1'', input_roomID = ''9999'',
          input_nationalID = ''1234567890123'', input_secret = ''237092''\<rparr>"
  using getDoorLockInput_found [of example_staff "''s1''" _ 1600548641000] example_staff_s1
  by (simp add: generateTOTP_s1_later_issue code_237092)

lemma decode_s1_730874:
  "decode ''s1|9999|1234567890123|730874'' =
     Inr \<lparr>input_userID = ''s1'', input_roomID = ''9999'',
          input_nationalID = ''1234567890123'', input_secret = ''730874''\<rparr>"
  by (simp add: decode_def)

section \<open>The room permission evaluator\<close>

text \<open>
  Claim C2. When the reservation lookup for the guest (by subject ID or shared-access
  email) and the date finds nothing, \<open>hasPermissionToEnterRoom\<close> fails with
  ``Not checked in.''. Otherwise, for the owning guest it returns true exactly when the
  room is a member of the reservation's room set, and for any other requester exactly
  when the room equals the room shared with that email for that reservation.
\<close>

theorem hasPermissionToEnterRoom_cases:
  "(findReservationIn (roomRepository svc) db guestID email date = None \<longrightarrow>
      hasPermissionToEnterRoom svc db guestID email date roomID =
        Inl (BadRequestError ''Not checked in.''))
   \<and> (\<forall>r. findReservationIn (roomRepository svc) db guestID email date = Some r \<and>
          guest_id r = guestID \<longrightarrow>
        (hasPermissionToEnterRoom svc db guestID email date roomID = Inr True \<longleftrightarrow>
           (\<exists>rr. getReservation (reservationRepository svc) db (id_reservation r) = Some rr \<and>
                 roomID \<in> set (map id_room (rooms rr)))) \<and>
        (\<forall>rr. getReservation (reservationRepository svc) db (id_reservation r) = Some rr \<longrightarrow>
           hasPermissionToEnterRoom svc db guestID email date roomID =
             Inr (roomID \<in> set (map id_room (rooms rr)))))
   \<and> (\<forall>r. findReservationIn (roomRepository svc) db guestID email date = Some r \<and>
          guest_id r \<noteq> guestID \<longrightarrow>
        (hasPermissionToEnterRoom svc db guestID email date roomID = Inr True \<longleftrightarrow>
           (\<exists>g. findGuestRoomReservation (roomRepository svc) db email (id_reservation r) = Some g \<and>
                room_id g = roomID)) \<and>
        (\<forall>g. findGuestRoomReservation (roomRepository svc) db email (id_reservation r) = Some g \<longrightarrow>
           hasPermissionToEnterRoom svc db guestID email date roomID =
             Inr (room_id g = roomID)))"
  by (auto simp: hasPermissionToEnterRoom_def allRoomsInReservation_def roomShared_def
      split: option.splits)

text \<open>
  The owner of the example reservation, with rooms 1, 2 and 3, may enter room 2 and not
  room 99 on a day inside the window, and is not checked in on a day outside it.
\<close>

theorem hasPermissionToEnterRoom_cases_witness:
  "hasPermissionToEnterRoom (storeService example_pick) example_store ''owner'' ''owner@example.com'' 15 2 = Inr True
   \<and> hasPermissionToEnterRoom (storeService example_pick) example_store ''owner'' ''owner@example.com'' 15 99 = Inr False
   \<and> hasPermissionToEnterRoom (storeService example_pick) example_store ''owner'' ''owner@example.com'' 25 2 =
       Inl (BadRequestError ''Not checked in.'')"
proof -
  have f: "findReservationIn (roomRepository (storeService example_pick)) example_store ''owner''
      ''owner@example.com'' 15 = Some example_reservation"
    by (simp add: storeService_def example_lookup_owner)
  have o: "guest_id example_reservation = ''owner''"
    by (simp add: example_reservation_def)
  have r: "getReservation (reservationRepository (storeService example_pick)) example_store
      (id_reservation example_reservation) = Some example_reservation"
    using example_getReservation by (simp add: storeService_def example_reservation_def)
  have n: "findReservationIn (roomRepository (storeService example_pick)) example_store ''owner''
      ''owner@example.com'' 25 = None"
    by (simp add: storeService_def store_findReservationIn_def example_store_def
        example_reservation_def)
  have 1: "hasPermissionToEnterRoom (storeService example_pick) example_store ''owner'' ''owner@example.com'' 15 2 =
      Inr (2 \<in> set (map id_room (rooms example_reservation)))"
    using hasPermissionToEnterRoom_cases
      [of "storeService example_pick" example_store "''owner''" "''owner@example.com''" 15 2] f o r
    by simp
  have 2: "hasPermissionToEnterRoom (storeService example_pick) example_store ''owner'' ''owner@example.com'' 15 99 =
      Inr (99 \<in> set (map id_room (rooms example_reservation)))"
    using hasPermissionToEnterRoom_cases
      [of "storeService example_pick" example_store "''owner''" "''owner@example.com''" 15 99] f o r
    by simp
  have 3: "hasPermissionToEnterRoom (storeService example_pick) example_store ''owner'' ''owner@example.com'' 25 2 =
       Inl (BadRequestError ''Not checked in.'')"
    using hasPermissionToEnterRoom_cases
      [of "storeService example_pick" example_store "''owner''" "''owner@example.com''" 25 2] n
    by simp
  from 1 2 3 show ?thesis by (simp add: example_reservation_def)
qed

text \<open>
  Claim C10. \<open>shareRoom\<close> on a reservation ID that names no reservation fails with the
  bad-request error ``Invalid reservation id.'', not with the forbidden error, and leaves
  the database as it was: no grant is created.
\<close>

theorem shareRoom_unknown_reservation:
  assumes "findReservationById (roomRepository svc) db reservationID = None"
  shows "shareRoom svc db ownerID email reservationID roomID =
           (Inl (BadRequestError ''Invalid reservation id.''), db)"
  using assms by (simp add: shareRoom_def checkIsReservationOwner_def)

text \<open>Sharing a room of the unknown reservation \<open>nope\<close> in the example store.\<close>

theorem shareRoom_unknown_reservation_witness:
  "shareRoom (storeService example_pick) example_store ''owner'' ''friend@example.com'' ''nope'' 2 =
     (Inl (BadRequestError ''Invalid reservation id.''), example_store)"
  using shareRoom_unknown_reservation
    [of "storeService example_pick" example_store "''nope''" "''owner''" "''friend@example.com''" 2]
  by (simp add: storeService_def store_findReservationById_def example_store_def
      example_reservation_def)



section \<open>The access gate\<close>

text \<open>
  Claim C3. On \<open>/door/lock\<close>, \<open>/door/unlock\<close> and \<open>/door/sound\<close> the command is
  published only when the three guards have passed in the order authenticated, in-room,
  checked-in, each receiving the request its predecessor handed on; a failure at any
  stage ends the request with that guard's error and nothing is published.
\<close>

theorem actuation_guarded:
  assumes "command = ''lock'' \<or> command = ''unlock'' \<or> command = ''sound''"
  shows
  "(\<forall>r1 r2 r3. isAuthenticated g req = Inr r1 \<and> isInRoom g r1 = Inr r2 \<and>
        isCheckedIn g r2 = Inr r3 \<longrightarrow>
      app_post g (''/door/'' @ command) req client =
        (Sent ''eyy'', publish ''door'' command client))
   \<and> (\<forall>e. isAuthenticated g req = Inl e \<longrightarrow>
        app_post g (''/door/'' @ command) req client = (Failed e, client))
   \<and> (\<forall>r1 e. isAuthenticated g req = Inr r1 \<and> isInRoom g r1 = Inl e \<longrightarrow>
        app_post g (''/door/'' @ command) req client = (Failed e, client))
   \<and> (\<forall>r1 r2 e. isAuthenticated g req = Inr r1 \<and> isInRoom g r1 = Inr r2 \<and>
        isCheckedIn g r2 = Inl e \<longrightarrow>
        app_post g (''/door/'' @ command) req client = (Failed e, client))
   \<and> (published (snd (app_post g (''/door/'' @ command) req client)) \<noteq> published client \<longrightarrow>
        (\<exists>r1 r2 r3. isAuthenticated g req = Inr r1 \<and> isInRoom g r1 = Inr r2 \<and>
           isCheckedIn g r2 = Inr r3))"
proof -
  have route: "app_post g (''/door/'' @ command) req client =
      runHandlers [isAuthenticated g, isInRoom g, isCheckedIn g] (actuate command) req client"
    using assms by (auto simp: app_post_def)
  show ?thesis
    unfolding route runHandlers_three
    by (auto simp: actuate_def split: sum.splits)
qed

text \<open>A request that passes every guard, one with a bad token, and one for another room.\<close>

theorem actuation_guarded_witness:
  "app_post example_guards ''/door/lock'' (''token'', 2) \<lparr>published = []\<rparr> =
     (Sent ''eyy'', \<lparr>published = [(''door'', ''lock'')]\<rparr>)
   \<and> app_post example_guards ''/door/lock'' (''none'', 2) \<lparr>published = []\<rparr> =
     (Failed (GuardError ''Unauthorized''), \<lparr>published = []\<rparr>)
   \<and> app_post example_guards ''/door/lock'' (''token'', 7) \<lparr>published = []\<rparr> =
     (Failed (GuardError ''Not in room''), \<lparr>published = []\<rparr>)"
proof -
  have c: "''lock'' = ''lock'' \<or> ''lock'' = ''unlock'' \<or> ''lock'' = ''sound''"
    by simp
  have pass: "isAuthenticated example_guards (''token'', 2) = Inr (''token'', 2) \<and>
      isInRoom example_guards (''token'', 2) = Inr (''token'', 2) \<and>
      isCheckedIn example_guards (''token'', 2) = Inr (''token'', 2)"
    by (simp add: example_guards_def)
  have noauth: "isAuthenticated example_guards (''none'', 2) = Inl (GuardError ''Unauthorized'')"
    by (simp add: example_guards_def)
  have noroom: "isAuthenticated example_guards (''token'', 7) = Inr (''token'', 7) \<and>
      isInRoom example_guards (''token'', 7) = Inl (GuardError ''Not in room'')"
    by (simp add: example_guards_def)
  from actuation_guarded [OF c, of example_guards "(''token'', 2)" "\<lparr>published = []\<rparr>"] pass
  have 1: "app_post example_guards ''/door/lock'' (''token'', 2) \<lparr>published = []\<rparr> =
     (Sent ''eyy'', publish ''door'' ''lock'' \<lparr>published = []\<rparr>)"
    by simp
  from actuation_guarded [OF c, of example_guards "(''none'', 2)" "\<lparr>published = []\<rparr>"] noauth
  have 2: "app_post example_guards ''/door/lock'' (''none'', 2) \<lparr>published = []\<rparr> =
     (Failed (GuardError ''Unauthorized''), \<lparr>published = []\<rparr>)"
    by simp
  from actuation_guarded [OF c, of example_guards "(''token'', 7)" "\<lparr>published = []\<rparr>"] noroom
  have 3: "app_post example_guards ''/door/lock'' (''token'', 7) \<lparr>published = []\<rparr> =
     (Failed (GuardError ''Not in room''), \<lparr>published = []\<rparr>)"
    by simp
  from 1 2 3 show ?thesis by (simp add: publish_def)
qed

section \<open>The code codec\<close>

text \<open>
  Claim C6. Decoding an encoded payload returns the four fields whenever none of them
  contains the delimiter \<open>|\<close>; and there is an input with a delimiter in a field for
  which the round trip does not return the original fields.
\<close>

theorem encode_decode_roundtrip:
  "(CHR ''|'' \<notin> set (input_userID i) \<and> CHR ''|'' \<notin> set (input_roomID i) \<and>
    CHR ''|'' \<notin> set (input_nationalID i) \<and> CHR ''|'' \<notin> set (input_secret i)
      \<longrightarrow> decode (encode i) = Inr i)
   \<and> (\<exists>j. CHR ''|'' \<in> set (input_userID j) \<and> decode (encode j) \<noteq> Inr j)"
proof (intro conjI impI)
  assume a: "CHR ''|'' \<notin> set (input_userID i) \<and> CHR ''|'' \<notin> set (input_roomID i) \<and>
    CHR ''|'' \<notin> set (input_nationalID i) \<and> CHR ''|'' \<notin> set (input_secret i)"
  then have "split_on CHR ''|'' (encode i) =
      [input_userID i, input_roomID i, input_nationalID i, input_secret i]"
    by (simp add: encode_def split_on_field split_on_no_sep)
  then show "decode (encode i) = Inr i"
    by (simp add: decode_def)
next
  let ?j = "\<lparr>input_userID = ''a|b'', input_roomID = ''9999'',
             input_nationalID = ''1234567890123'', input_secret = ''000000''\<rparr>"
  have "CHR ''|'' \<in> set (input_userID ?j) \<and> decode (encode ?j) \<noteq> Inr ?j"
    by (simp add: decode_def encode_def)
  then show "\<exists>j. CHR ''|'' \<in> set (input_userID j) \<and> decode (encode j) \<noteq> Inr j"
    by blast
qed

text \<open>A payload for staff \<open>s1\<close> with code \<open>009333\<close> survives the round trip.\<close>

theorem encode_decode_roundtrip_witness:
  "decode (encode \<lparr>input_userID = ''s1'', input_roomID = ''9999'',
      input_nationalID = ''1234567890123'', input_secret = ''009333''\<rparr>) =
   Inr \<lparr>input_userID = ''s1'', input_roomID = ''9999'',
      input_nationalID = ''1234567890123'', input_secret = ''009333''\<rparr>"
  using encode_decode_roundtrip [of "\<lparr>input_userID = ''s1'', input_roomID = ''9999'',
      input_nationalID = ''1234567890123'', input_secret = ''009333''\<rparr>"]
  by simp

section \<open>The code generator\<close>

text \<open>
  Claim C1. \<open>generateHOTP\<close> is meant to equal the reference definition for every
  secret and counter. At the counter 2147483648 it does not: the counter loop works on
  signed 32-bit values, fills the four high bytes with \<open>0xff\<close> where the 8-byte
  big-endian form has \<open>0x00\<close>, and the code comes out as 826074 where the reference,
  under the same key, gives 752360. Below that counter the two agree
  (\<open>generateHOTP_agrees_with_reference\<close>), and the code always lies between 0 and
  999999 (\<open>generateHOTP_range\<close>).
\<close>

theorem generateHOTP_counter_overflow:
  "counterBuffer 2147483648 = [255, 255, 255, 255, 128, 0, 0, 0]
   \<and> be_bytes8 2147483648 = [0, 0, 0, 0, 128, 0, 0, 0]
   \<and> generateHOTP ''s199991234567890123'' 2147483648 = 826074
   \<and> hotp_reference (decodedSecret ''s199991234567890123'') 2147483648 = 752360
   \<and> generateHOTP ''s199991234567890123'' 2147483648 \<noteq>
       hotp_reference (decodedSecret ''s199991234567890123'') 2147483648"
  by (simp add: counterBuffer_overflow be_bytes8_overflow generateHOTP_overflow
      decodedSecret_s1 hotp_reference_overflow)

section \<open>Code issuance\<close>

text \<open>
  Claim C4. For a staff ID with no staff record, \<open>getDoorLockInput\<close> fails with the
  client error ``Request failed. Staff ID is invalid.'' and returns no payload. When the
  record exists, the payload has the staff ID as \<open>userID\<close>, the placeholders
  \<open>9999\<close> and \<open>1234567890123\<close> as \<open>roomID\<close> and \<open>nationalID\<close>, and as code
  the time code of the concatenated triple at window 300, rendered as exactly six decimal
  digits.
\<close>

theorem getDoorLockInput_payload:
  "(findStaffById staffID = None \<longrightarrow>
      getDoorLockInput findStaffById now staffID =
        Inl (BadRequestError ''Request failed. Staff ID is invalid.''))
   \<and> (\<forall>staff. findStaffById staffID = Some staff \<longrightarrow>
        (\<exists>input. getDoorLockInput findStaffById now staffID = Inr input \<and>
           input_userID input = staffID \<and> input_roomID input = ''9999'' \<and>
           input_nationalID input = ''1234567890123'' \<and>
           input_secret input = padStart 6 CHR ''0''
             (toString (generateTOTP now (staffID @ ''9999'' @ ''1234567890123'') 300)) \<and>
           length (input_secret input) = 6 \<and>
           set (input_secret input) \<subseteq> set ''0123456789''))"
proof (intro conjI allI impI)
  assume "findStaffById staffID = None"
  then show "getDoorLockInput findStaffById now staffID =
        Inl (BadRequestError ''Request failed. Staff ID is invalid.'')"
    by (simp add: getDoorLockInput_def)
next
  fix staff
  assume f: "findStaffById staffID = Some staff"
  let ?code = "generateTOTP now (staffID @ ''9999'' @ ''1234567890123'') 300"
  have r: "0 \<le> ?code" "?code < 1000000"
    using generateTOTP_range [of now "staffID @ ''9999'' @ ''1234567890123''" 300] by simp_all
  from getDoorLockInput_found [of findStaffById staffID staff now] f padStart_code_shape [OF r]
  show "\<exists>input. getDoorLockInput findStaffById now staffID = Inr input \<and>
           input_userID input = staffID \<and> input_roomID input = ''9999'' \<and>
           input_nationalID input = ''1234567890123'' \<and>
           input_secret input = padStart 6 CHR ''0'' (toString ?code) \<and>
           length (input_secret input) = 6 \<and>
           set (input_secret input) \<subseteq> set ''0123456789''"
    by simp
qed

text \<open>Issuing for an unknown staff ID and for staff \<open>s1\<close> at 2020-09-19T20:45:41Z.\<close>

theorem getDoorLockInput_payload_witness:
  "getDoorLockInput example_staff 1600548341000 ''nobody'' =
     Inl (BadRequestError ''Request failed. Staff ID is invalid.'')
   \<and> getDoorLockInput example_staff 1600548341000 ''s1'' =
     Inr \<lparr>input_userID = ''s1'', input_roomID = ''9999'',
          input_nationalID = ''1234567890123'', input_secret = ''730874''\<rparr>"
proof -
  note t = getDoorLockInput_payload
  from t [of example_staff "''nobody''" 1600548341000] example_staff_nobody
  have 1: "getDoorLockInput example_staff 1600548341000 ''nobody'' =
     Inl (BadRequestError ''Request failed. Staff ID is invalid.'')"
    by simp
  from t [of example_staff "''s1''" 1600548341000, THEN conjunct2, rule_format,
      OF example_staff_s1]
  obtain input where i: "getDoorLockInput example_staff 1600548341000 ''s1'' = Inr input"
    "input_userID input = ''s1''" "input_roomID input = ''9999''"
    "input_nationalID input = ''1234567890123''"
    "input_secret input = padStart 6 CHR ''0''
       (toString (generateTOTP 1600548341000 (''s1'' @ ''9999'' @ ''1234567890123'') 300))"
    by blast
  from i(2-5) have "input = \<lparr>input_userID = ''s1'', input_roomID = ''9999'',
          input_nationalID = ''1234567890123'', input_secret = ''730874''\<rparr>"
    by (simp add: generateTOTP_s1_issue code_730874)
  with i(1) 1 show ?thesis by simp
qed

text \<open>
  Claim C9. The route hands both \<open>userID\<close> and \<open>roomID\<close> of the query to the
  service. With the service as the spec describes it, two requests to
  \<open>GET /door/generate\<close> with the same subject at the same instant return the same
  payload whatever \<open>roomID\<close> they supply, and the \<open>roomID\<close> field of the issued
  payload is the placeholder \<open>9999\<close>.
\<close>

theorem generate_route_ignores_roomID:
  "generate_route service q1 =
     map_sum id (service_encode service)
       (service_getDoorLockInput service (query_userID q1) (query_roomID q1))
   \<and> (query_userID q1 = query_userID q2 \<longrightarrow>
        generate_route (doorlockCodeService findStaffById now) q1 =
        generate_route (doorlockCodeService findStaffById now) q2)
   \<and> (\<forall>staff. findStaffById (query_userID q1) = Some staff \<longrightarrow>
        generate_route (doorlockCodeService findStaffById now) q1 =
          Inr (query_userID q1 @ ''|'' @ ''9999'' @ ''|'' @ ''1234567890123'' @ ''|'' @
               padStart 6 CHR ''0''
                 (toString (generateTOTP now (query_userID q1 @ ''9999'' @ ''1234567890123'') 300))))
   \<and> (\<forall>input.
        service_getDoorLockInput (doorlockCodeService findStaffById now)
          (query_userID q1) (query_roomID q1) = Inr input \<longrightarrow>
        input_roomID input = ''9999'')"
proof (intro conjI allI impI)
  show "generate_route service q1 =
     map_sum id (service_encode service)
       (service_getDoorLockInput service (query_userID q1) (query_roomID q1))"
    by (simp add: generate_route_def split: sum.splits)
next
  assume "query_userID q1 = query_userID q2"
  then show "generate_route (doorlockCodeService findStaffById now) q1 =
        generate_route (doorlockCodeService findStaffById now) q2"
    by (simp add: generate_route_def doorlockCodeService_def)
next
  fix staff
  assume "findStaffById (query_userID q1) = Some staff"
  with getDoorLockInput_found [of findStaffById "query_userID q1" staff now]
  show "generate_route (doorlockCodeService findStaffById now) q1 =
          Inr (query_userID q1 @ ''|'' @ ''9999'' @ ''|'' @ ''1234567890123'' @ ''|'' @
               padStart 6 CHR ''0''
                 (toString (generateTOTP now (query_userID q1 @ ''9999'' @ ''1234567890123'') 300)))"
    by (simp add: generate_route_def doorlockCodeService_def encode_def)
next
  fix input
  assume "service_getDoorLockInput (doorlockCodeService findStaffById now)
          (query_userID q1) (query_roomID q1) = Inr input"
  then show "input_roomID input = ''9999''"
    by (auto simp: doorlockCodeService_def getDoorLockInput_def Let_def split: option.splits)
qed

text \<open>Requests for rooms 101 and 202 receive the same payload.\<close>

theorem generate_route_ignores_roomID_witness:
  "generate_route (doorlockCodeService example_staff 1600548341000)
     \<lparr>query_userID = ''s1'', query_roomID = ''101''\<rparr> =
   generate_route (doorlockCodeService example_staff 1600548341000)
     \<lparr>query_userID = ''s1'', query_roomID = ''202''\<rparr>
   \<and> generate_route (doorlockCodeService example_staff 1600548341000)
       \<lparr>query_userID = ''s1'', query_roomID = ''101''\<rparr> =
     Inr ''s1|9999|1234567890123|730874''"
proof -
  let ?q1 = "\<lparr>query_userID = ''s1'', query_roomID = ''101''\<rparr>"
  let ?q2 = "\<lparr>query_userID = ''s1'', query_roomID = ''202''\<rparr>"
  let ?svc = "doorlockCodeService example_staff 1600548341000"
  note t = generate_route_ignores_roomID [of ?svc ?q1 ?q2 example_staff 1600548341000]
  have u: "query_userID ?q1 = query_userID ?q2" by simp
  have s: "example_staff (query_userID ?q1) = Some \<lparr>id_staff = ''s1'', password = ''hash''\<rparr>"
    by (simp add: example_staff_s1)
  from t [THEN conjunct2, THEN conjunct1, rule_format, OF u]
  have 1: "generate_route ?svc ?q1 = generate_route ?svc ?q2" .
  from t [THEN conjunct2, THEN conjunct2, THEN conjunct1, rule_format, OF s]
  have 2: "generate_route ?svc ?q1 = Inr ''s1|9999|1234567890123|730874''"
    by (simp add: generateTOTP_s1_issue code_730874)
  from 1 2 show ?thesis by simp
qed

section \<open>The HMAC key\<close>

text \<open>
  Claim C7, as the code has it. The key handed to the HMAC is the base64 decoding of the
  string obtained by concatenating the three identity fields, never longer than three
  quarters of that string and so never its byte sequence unless the string is empty. The
  code depends on the triple only through that key, so the same triple, and any other
  string that decodes to the same key, gives the same code for a given counter.
\<close>

theorem hmac_key_is_base64_decoding:
  "decodedSecret (subjectID @ roomID @ documentID) =
     Buffer_from_base64 (subjectID @ roomID @ documentID)
   \<and> 4 * length (decodedSecret (subjectID @ roomID @ documentID)) \<le>
       3 * length (subjectID @ roomID @ documentID)
   \<and> (subjectID @ roomID @ documentID \<noteq> [] \<longrightarrow>
        decodedSecret (subjectID @ roomID @ documentID) \<noteq>
          utf8 (subjectID @ roomID @ documentID))
   \<and> generateHOTP (subjectID @ roomID @ documentID) counter =
       js_rem (dynamicTruncationFn
                 (createHmac_sha1 (Buffer_from_base64 (subjectID @ roomID @ documentID))
                    (counterBuffer counter))) (10 ^ 6)
   \<and> (\<forall>other. decodedSecret other = decodedSecret (subjectID @ roomID @ documentID) \<longrightarrow>
        generateHOTP other counter = generateHOTP (subjectID @ roomID @ documentID) counter)
   \<and> (\<forall>staff. findStaffById subjectID = Some staff \<longrightarrow>
        map_sum id input_secret (getDoorLockInput findStaffById now subjectID) =
          Inr (padStart 6 CHR ''0'' (toString
            (js_rem (dynamicTruncationFn
               (createHmac_sha1 (Buffer_from_base64 (subjectID @ ''9999'' @ ''1234567890123''))
                  (counterBuffer (now div 1000 + 300)))) (10 ^ 6)))))"
proof (intro conjI allI impI)
  show "decodedSecret (subjectID @ roomID @ documentID) =
     Buffer_from_base64 (subjectID @ roomID @ documentID)"
    by (simp add: decodedSecret_def)
  show "4 * length (decodedSecret (subjectID @ roomID @ documentID)) \<le>
       3 * length (subjectID @ roomID @ documentID)"
    unfolding decodedSecret_def by (rule Buffer_from_base64_length)
  show "generateHOTP (subjectID @ roomID @ documentID) counter =
       js_rem (dynamicTruncationFn
                 (createHmac_sha1 (Buffer_from_base64 (subjectID @ roomID @ documentID))
                    (counterBuffer counter))) (10 ^ 6)"
    by (simp add: generateHOTP_def decodedSecret_def Let_def)
next
  assume "subjectID @ roomID @ documentID \<noteq> []"
  then show "decodedSecret (subjectID @ roomID @ documentID) \<noteq>
          utf8 (subjectID @ roomID @ documentID)"
    by (rule decodedSecret_not_utf8)
next
  fix other
  assume "decodedSecret other = decodedSecret (subjectID @ roomID @ documentID)"
  then show "generateHOTP other counter = generateHOTP (subjectID @ roomID @ documentID) counter"
    by (simp add: generateHOTP_def)
next
  fix staff
  assume "findStaffById subjectID = Some staff"
  with getDoorLockInput_found [of findStaffById subjectID staff now]
  show "map_sum id input_secret (getDoorLockInput findStaffById now subjectID) =
          Inr (padStart 6 CHR ''0'' (toString
            (js_rem (dynamicTruncationFn
               (createHmac_sha1 (Buffer_from_base64 (subjectID @ ''9999'' @ ''1234567890123''))
                  (counterBuffer (now div 1000 + 300)))) (10 ^ 6))))"
    by (simp add: generateTOTP_def generateHOTP_def decodedSecret_def Let_def)
qed

text \<open>
  For the triple of staff \<open>s1\<close> the key has at most 14 bytes; the subject
  \<open>s1!\<close>, whose extra character the decoder skips, receives the same code.
\<close>

theorem hmac_key_is_base64_decoding_witness:
  "decodedSecret (''s1'' @ ''9999'' @ ''1234567890123'') \<noteq>
     utf8 (''s1'' @ ''9999'' @ ''1234567890123'')
   \<and> length (decodedSecret (''s1'' @ ''9999'' @ ''1234567890123'')) \<le> 14
   \<and> generateHOTP ''s1!99991234567890123'' 1600548641 = 730874
   \<and> map_sum id input_secret (getDoorLockInput example_staff 1600548341000 ''s1'') =
       Inr ''730874''"
proof -
  note t = hmac_key_is_base64_decoding
    [of "''s1''" "''9999''" "''1234567890123''" 1600548641 example_staff 1600548341000]
  have ne: "''s1'' @ ''9999'' @ ''1234567890123'' \<noteq> []" by simp
  from t [THEN conjunct2, THEN conjunct2, THEN conjunct1, rule_format, OF ne]
  have 1: "decodedSecret (''s1'' @ ''9999'' @ ''1234567890123'') \<noteq>
     utf8 (''s1'' @ ''9999'' @ ''1234567890123'')" .
  from t [THEN conjunct2, THEN conjunct1]
  have 2: "length (decodedSecret (''s1'' @ ''9999'' @ ''1234567890123'')) \<le> 14"
    by simp
  have same: "decodedSecret ''s1!99991234567890123'' =
      decodedSecret (''s1'' @ ''9999'' @ ''1234567890123'')"
    by (simp add: decodedSecret_def Buffer_from_base64_def b64_value_def)
  from t [THEN conjunct2, THEN conjunct2, THEN conjunct2, THEN conjunct2, THEN conjunct1,
      rule_format, OF same]
  have 3: "generateHOTP ''s1!99991234567890123'' 1600548641 = 730874"
    by (simp add: generateHOTP_later)
  from t [THEN conjunct2, THEN conjunct2, THEN conjunct2, THEN conjunct2, THEN conjunct2,
      rule_format, OF example_staff_s1]
  have "map_sum id input_secret (getDoorLockInput example_staff 1600548341000 ''s1'') =
      Inr (padStart 6 CHR ''0'' (toString (generateHOTP ''s199991234567890123'' 1600548641)))"
    by (simp add: generateHOTP_def decodedSecret_def Let_def)
  then have 4: "map_sum id input_secret (getDoorLockInput example_staff 1600548341000 ''s1'') =
       Inr ''730874''"
    by (simp add: generateHOTP_later code_730874)
  from 1 2 3 4 show ?thesis by simp
qed

text \<open>
  The claim as stated fails for the triple of staff \<open>s1\<close>: the key is 14 bytes, the
  byte sequence of the concatenated string is 19.
\<close>

theorem hmac_key_counterexample:
  "decodedSecret (''s1'' @ ''9999'' @ ''1234567890123'') =
     [179, 95, 125, 247, 221, 118, 223, 142, 122, 239, 207, 116, 215, 109]
   \<and> utf8 (''s1'' @ ''9999'' @ ''1234567890123'') =
     [115, 49, 57, 57, 57, 57, 49, 50, 51, 52, 53, 54, 55, 56, 57, 48, 49, 50, 51]
   \<and> decodedSecret (''s1'' @ ''9999'' @ ''1234567890123'') \<noteq>
       utf8 (''s1'' @ ''9999'' @ ''1234567890123'')"
  by (simp add: decodedSecret_s1 utf8_def)

section \<open>Code verification\<close>

text \<open>
  Claim C8, as the code has it. \<open>verify\<close> decodes the payload and compares the
  presented code with the code recomputed for the current instant alone (window
  offset 0); a payload that does not decode fails. A code issued for the window 300
  ticks ahead, presented in its payload at the time of issuance, is accepted exactly when
  it equals the code of the current instant and the staff ID contains no delimiter;
  otherwise it is rejected: \<open>verify\<close> returns false, or fails to decode when the
  staff ID contains the delimiter.
\<close>

theorem verify_compares_current_instant:
  "(\<forall>input. decode encoded = Inr input \<longrightarrow>
      verify now encoded =
        Inr (input_secret input =
             padStart 6 CHR ''0''
               (toString (generateTOTP now
                  (input_userID input @ input_roomID input @ input_nationalID input) 0))))
   \<and> (\<forall>e. decode encoded = Inl e \<longrightarrow> verify now encoded = Inl e)
   \<and> (\<forall>staff input. findStaffById staffID = Some staff \<and>
          getDoorLockInput findStaffById now staffID = Inr input \<longrightarrow>
        verify now (encode input) =
          (if CHR ''|'' \<in> set staffID then Inl DecodingError
           else Inr (generateTOTP now (staffID @ ''9999'' @ ''1234567890123'') 300 =
                     generateTOTP now (staffID @ ''9999'' @ ''1234567890123'') 0)))"
proof (intro conjI allI impI)
  fix input
  assume "decode encoded = Inr input"
  then show "verify now encoded =
        Inr (input_secret input =
             padStart 6 CHR ''0''
               (toString (generateTOTP now
                  (input_userID input @ input_roomID input @ input_nationalID input) 0)))"
    by (simp add: verify_def)
next
  fix e
  assume "decode encoded = Inl e"
  then show "verify now encoded = Inl e"
    by (simp add: verify_def)
next
  fix staff input
  assume a: "findStaffById staffID = Some staff \<and>
          getDoorLockInput findStaffById now staffID = Inr input"
  let ?s = "staffID @ ''9999'' @ ''1234567890123''"
  have r300: "0 \<le> generateTOTP now ?s 300" "generateTOTP now ?s 300 < 1000000"
    and r0: "0 \<le> generateTOTP now ?s 0"
    using generateTOTP_range [of now ?s 300] generateTOTP_range [of now ?s 0] by simp_all
  from a getDoorLockInput_found [of findStaffById staffID staff now]
  have i: "input = \<lparr>input_userID = staffID, input_roomID = ''9999'',
      input_nationalID = ''1234567890123'',
      input_secret = padStart 6 CHR ''0'' (toString (generateTOTP now ?s 300))\<rparr>"
    by simp
  show "verify now (encode input) =
          (if CHR ''|'' \<in> set staffID then Inl DecodingError
           else Inr (generateTOTP now ?s 300 = generateTOTP now ?s 0))"
  proof (cases "CHR ''|'' \<in> set staffID")
    case True
    then have "decode (encode input) = Inl DecodingError"
      by (intro decode_encode_delimiter) (simp add: i)
    with True show ?thesis
      by (simp add: verify_def)
  next
    case False
    have "CHR ''|'' \<notin> set ''0123456789''" by simp
    with padStart_code_shape(2) [OF r300]
    have "CHR ''|'' \<notin> set (padStart 6 CHR ''0'' (toString (generateTOTP now ?s 300)))"
      by blast
    with False have "decode (encode input) = Inr input"
      by (intro decode_encode) (simp_all add: i)
    then have "verify now (encode input) =
        Inr (padStart 6 CHR ''0'' (toString (generateTOTP now ?s 300)) =
             padStart 6 CHR ''0'' (toString (generateTOTP now ?s 0)))"
      by (simp add: verify_def i)
    with padded_code_inject [OF r300(1) r0] False show ?thesis
      by simp
  qed
qed

text \<open>
  At 2020-09-19T20:50:41Z a payload with three fields does not decode, the code of that
  instant is accepted, and the code issued then for the future window is rejected. A
  payload issued to a staff ID that contains the delimiter does not decode.
\<close>

theorem verify_compares_current_instant_witness:
  "verify 1600548641000 ''s1|9999|1234567890123'' = Inl DecodingError
   \<and> verify 1600548641000 ''s1|9999|1234567890123|730874'' = Inr True
   \<and> verify 1600548641000
        (encode \<lparr>input_userID = ''s1'', input_roomID = ''9999'',
           input_nationalID = ''1234567890123'', input_secret = ''237092''\<rparr>) = Inr False
   \<and> verify 1600145468000
        (encode \<lparr>input_userID = ''a|b'', input_roomID = ''9999'',
           input_nationalID = ''1234567890123'',
           input_secret = padStart 6 CHR ''0''
             (toString (generateTOTP 1600145468000 (''a|b'' @ ''9999'' @ ''1234567890123'') 300))\<rparr>) =
       Inl DecodingError"
proof -
  note t = verify_compares_current_instant
  have d1: "decode ''s1|9999|1234567890123'' = Inl DecodingError"
    by (simp add: decode_def)
  from t [of "''s1|9999|1234567890123''" 1600548641000, THEN conjunct2, THEN conjunct1,
      rule_format, OF d1]
  have 1: "verify 1600548641000 ''s1|9999|1234567890123'' = Inl DecodingError" .
  from t [of "''s1|9999|1234567890123|730874''" 1600548641000, THEN conjunct1,
      rule_format, OF decode_s1_730874]
  have 2: "verify 1600548641000 ''s1|9999|1234567890123|730874'' = Inr True"
    by (simp add: generateTOTP_s1_later_now code_730874)
  have h: "example_staff ''s1'' = Some \<lparr>id_staff = ''s1'', password = ''hash''\<rparr> \<and>
      getDoorLockInput example_staff 1600548641000 ''s1'' =
        Inr \<lparr>input_userID = ''s1'', input_roomID = ''9999'',
          input_nationalID = ''1234567890123'', input_secret = ''237092''\<rparr>"
    by (simp add: example_staff_s1 issued_s1_later)
  from t [of "[]" 1600548641000 example_staff "''s1''", THEN conjunct2, THEN conjunct2,
      rule_format, OF h]
  have 3: "verify 1600548641000
        (encode \<lparr>input_userID = ''s1'', input_roomID = ''9999'',
           input_nationalID = ''1234567890123'', input_secret = ''237092''\<rparr>) = Inr False"
    by (simp add: generateTOTP_s1_later_issue generateTOTP_s1_later_now)
  let ?anyone = "\<lambda>sid. Some \<lparr>id_staff = sid, password = ''hash''\<rparr>"
  let ?issued = "\<lparr>input_userID = ''a|b'', input_roomID = ''9999'',
           input_nationalID = ''1234567890123'',
           input_secret = padStart 6 CHR ''0''
             (toString (generateTOTP 1600145468000 (''a|b'' @ ''9999'' @ ''1234567890123'') 300))\<rparr>"
  have h': "?anyone ''a|b'' = Some \<lparr>id_staff = ''a|b'', password = ''hash''\<rparr> \<and>
      getDoorLockInput ?anyone 1600145468000 ''a|b'' = Inr ?issued"
    using getDoorLockInput_found [of ?anyone "''a|b''" "\<lparr>id_staff = ''a|b'', password = ''hash''\<rparr>"
        1600145468000]
    by simp
  from t [of "[]" 1600145468000 ?anyone "''a|b''", THEN conjunct2, THEN conjunct2,
      rule_format, OF h']
  have 4: "verify 1600145468000 (encode ?issued) = Inl DecodingError"
    by simp
  from 1 2 3 4 show ?thesis by simp
qed

text \<open>
  The claim as stated fails at 2020-09-19T20:45:41Z: the code issued to staff \<open>s1\<close>
  for the counter 300 ticks ahead coincides with the code of the current counter, and
  \<open>verify\<close> accepts it at the time of issuance.
\<close>

theorem verify_future_code_counterexample:
  "getDoorLockInput example_staff 1600548341000 ''s1'' =
     Inr \<lparr>input_userID = ''s1'', input_roomID = ''9999'',
          input_nationalID = ''1234567890123'', input_secret = ''730874''\<rparr>
   \<and> encode \<lparr>input_userID = ''s1'', input_roomID = ''9999'',
          input_nationalID = ''1234567890123'', input_secret = ''730874''\<rparr> =
       ''s1|9999|1234567890123|730874''
   \<and> generateHOTP ''s199991234567890123'' (1600548341000 div 1000 + 300) = 730874
   \<and> generateHOTP ''s199991234567890123'' (1600548341000 div 1000) = 730874
   \<and> verify 1600548341000 ''s1|9999|1234567890123|730874'' = Inr True"
  by (simp add: issued_s1 encode_def generateHOTP_later generateHOTP_now verify_def
      decode_s1_730874 generateTOTP_s1_now code_730874)

end
